theory Spec2Isabelle
  imports Complex_Main "HOL-Library.AList" "HOL-Library.Char_ord" "HOL-Library.List_Lexorder"
begin

section \<open>Numbers and strings\<close>

text \<open>
  The services compute with JavaScript numbers. They are modelled as real numbers, and the
  arithmetic of the source is kept operation by operation. The rounding of IEEE doubles is
  written out in \<open>calcSharpe\<close>, whose result depends on it, and left out elsewhere.
  Strings are compared as the source compares them, character by character
  (\<open>Array.prototype.sort\<close> without a comparator and \<open>\<le>\<close> on strings).
\<close>

definition toFixed4 :: "real \<Rightarrow> real" where
  \<comment> \<open>\<open>parseFloat(x.toFixed(4))\<close>: the nearest multiple of 1/10000, a tie going away from
      zero; from \<open>10^21\<close> on \<open>toFixed\<close> prints the number itself.\<close>
  "toFixed4 x =
     (if 10 ^ 21 \<le> \<bar>x\<bar> then x
      else if x < 0 then - (of_int \<lfloor>- x * 10000 + 1 / 2\<rfloor> / 10000)
      else of_int \<lfloor>x * 10000 + 1 / 2\<rfloor> / 10000)"

text \<open>
  Where a result depends on the rounding itself, the operations are those of IEEE binary64:
  the exact result rounded to the nearest double, a tie going to the even mantissa. The
  exponent is not bounded, so there is no overflow and no subnormal number; the values
  below are far from both.
\<close>

definition pow2 :: "int \<Rightarrow> real" where
  "pow2 e = (if 0 \<le> e then 2 ^ nat e else 1 / 2 ^ nat (- e))"

definition roundEven :: "real \<Rightarrow> int" where
  "roundEven q =
     (let f = \<lfloor>q\<rfloor>; r = q - of_int f
      in if r < 1 / 2 then f else if 1 / 2 < r then f + 1 else if even f then f else f + 1)"

definition fl64 :: "real \<Rightarrow> real" where
  \<comment> \<open>the double nearest to \<open>x\<close>: 53 bits of mantissa at the exponent of \<open>x\<close>\<close>
  "fl64 x =
     (if x = 0 then 0
      else (let e = \<lfloor>log 2 \<bar>x\<bar>\<rfloor>; ulp = pow2 (e - 52)
            in of_int (roundEven (x / ulp)) * ulp))"

definition toLowerChar :: "char \<Rightarrow> char" where
  "toLowerChar c =
     (if CHR ''A'' \<le> c \<and> c \<le> CHR ''Z'' then char_of (of_char c + (32::nat)) else c)"

definition toLowerCase :: "string \<Rightarrow> string" where
  \<comment> \<open>\<open>String.prototype.toLowerCase\<close> on the ASCII letters.\<close>
  "toLowerCase s = map toLowerChar s"

section \<open>backtest.service.ts: data\<close>

record BacktestAllocation =
  a_protocol :: string
  a_assetSymbol :: string
  a_percentage :: real
  a_poolType :: "string option"

record RunBacktestDto =
  initialAmountUsd :: real
  dto_from :: string
  dto_to :: string
  allocations :: "BacktestAllocation list"
  rebalanceIntervalDays :: "real option"
  includeIL :: "bool option"
  xcmFeeUsd :: "real option"

text \<open>
  \<open>DailyApyMap\<close> is a JavaScript object used as a dictionary from \<open>"YYYY-MM-DD"\<close> to an
  APY in percent. It is an association list with distinct keys in insertion order, which is
  the order \<open>Object.keys\<close> lists them in; \<open>map[k] = v\<close> is \<open>AList.update k v\<close>.
\<close>

type_synonym DailyApyMap = "(string \<times> real) list"

record PoolHistoryRecord =
  r_assetSymbol :: string
  dataTimestamp :: string
  totalApy :: "real option"
  supplyApy :: "real option"
  rewardApy :: "real option"

record AllocState =
  protocol :: string
  assetSymbol :: string
  poolType :: string
  percentage :: real
  valueUsd :: real
  apyHistory :: DailyApyMap
  apySamples :: "real list"
  ilLossUsd :: real

record TimeSeriesPoint =
  date :: string
  totalValueUsd :: real
  dailyReturnPct :: real

section \<open>backtest.service.ts: helpers\<close>

definition recordApy :: "PoolHistoryRecord \<Rightarrow> real" where
  "recordApy rec =
     (case totalApy rec of
        Some t \<Rightarrow> t
      | None \<Rightarrow> (case supplyApy rec of Some s \<Rightarrow> s | None \<Rightarrow> 0)
              + (case rewardApy rec of Some r \<Rightarrow> r | None \<Rightarrow> 0))"

definition buildApyMap :: "PoolHistoryRecord list \<Rightarrow> DailyApyMap" where
  "buildApyMap records =
     foldl (\<lambda>m rec. AList.update (take 10 (dataTimestamp rec)) (recordApy rec) m) [] records"

definition getApyForDay :: "DailyApyMap \<Rightarrow> string \<Rightarrow> string list \<Rightarrow> real" where
  \<comment> \<open>The two reads after the first are at keys taken from the map itself.\<close>
  "getApyForDay m dateStr allDays =
     (case map_of m dateStr of
        Some v \<Rightarrow> v
      | None \<Rightarrow>
          (let mapKeys = sort (map fst m) in
           if length mapKeys = 0 then 0
           else
             (let past = filter (\<lambda>k. k \<le> dateStr) mapKeys in
              if length past > 0 then the (map_of m (last past))
              else the (map_of m (hd mapKeys)))))"

function strideIndices :: "nat \<Rightarrow> nat \<Rightarrow> nat \<Rightarrow> nat list" where
  \<comment> \<open>\<open>for (let i = ...; i < n; i += step)\<close>, the indices visited.\<close>
  "strideIndices n step i =
     (if i < n \<and> 0 < step then i # strideIndices n step (i + step) else [])"
  by pat_completeness auto
termination
  by (relation "measure (\<lambda>(n, step, i). n - i)") auto

declare strideIndices.simps [simp del]

definition downsampleTimeSeries :: "'a list \<Rightarrow> nat \<Rightarrow> 'a list" where
  \<comment> \<open>The points of a series are distinct objects, so the source's test \<open>!==\<close> on the last
      sampled point and the last point of the series is a test on their indices. With
      \<open>maxPoints = 0\<close> the step is \<open>Infinity\<close> and only index 0 is visited.\<close>
  "downsampleTimeSeries series maxPoints =
     (if length series \<le> maxPoints then series
      else
        (let idxs = (if maxPoints = 0 then [0]
                     else strideIndices (length series)
                            ((length series + maxPoints - 1) div maxPoints) 0);
             result = map (\<lambda>i. series ! i) idxs
         in if last idxs \<noteq> length series - 1 then result @ [series ! (length series - 1)]
            else result))"

definition sumValues :: "AllocState list \<Rightarrow> real" where
  \<comment> \<open>\<open>allocStates.reduce((s, a) => s + a.valueUsd, 0)\<close>\<close>
  "sumValues states = foldl (\<lambda>s a. s + valueUsd a) 0 states"

definition countCrossChainHops :: "AllocState list \<Rightarrow> real" where
  "countCrossChainHops states =
     of_int (max 0 (int (length (remdups (map protocol states))) - 1))"

definition calculateIL :: "real \<Rightarrow> real" where
  "calculateIL priceRatio =
     (if priceRatio \<le> 0 then 0 else 2 * sqrt priceRatio / (1 + priceRatio) - 1)"

definition estimatePriceRatio :: "nat \<Rightarrow> real list \<Rightarrow> real" where
  "estimatePriceRatio days samples =
     (if length samples < 2 then 1
      else
        (let mean = foldl (\<lambda>s v. s + v) 0 samples / real (length samples);
             variance = foldl (\<lambda>s v. s + (v - mean)\<^sup>2) 0 samples / real (length samples);
             stdDev = sqrt variance;
             drift = min (3 / 10) ((stdDev / 100) * (3 / 10))
         in 1 + drift))"

definition RISK_FREE_RATE :: real where
  \<comment> \<open>the literal \<open>0.05\<close>\<close>
  "RISK_FREE_RATE = fl64 (5 / 100)"

definition calcSharpe :: "real list \<Rightarrow> real" where
  \<comment> \<open>Every operation rounds as the double operation does: the test \<open>stdDev === 0\<close> is a
      test on the rounded deviation. \<open>Math.pow(x, 2)\<close> is the rounded square.\<close>
  "calcSharpe dailyReturns =
     (if length dailyReturns < 2 then 0
      else
        (let rfDaily = fl64 (RISK_FREE_RATE / 365);
             mean = fl64 (foldl (\<lambda>s r. fl64 (s + r)) 0 dailyReturns / real (length dailyReturns));
             variance = fl64 (foldl (\<lambda>s r. fl64 (s + fl64 ((fl64 (r - mean))\<^sup>2))) 0 dailyReturns
                          / (real (length dailyReturns) - 1));
             stdDev = fl64 (sqrt variance)
         in if stdDev = 0 then 0
            else fl64 (fl64 (fl64 (mean - rfDaily) / stdDev) * fl64 (sqrt 365))))"

section \<open>backtest.service.ts: the day-by-day simulation\<close>

definition applyGrowth :: "nat \<Rightarrow> string \<Rightarrow> string list \<Rightarrow> AllocState \<Rightarrow> AllocState" where
  \<comment> \<open>The body of \<open>for (const state of allocStates)\<close> on day \<open>i\<close>.\<close>
  "applyGrowth i dateStr days state =
     (let apy = getApyForDay (apyHistory state) dateStr days;
          state1 = state\<lparr>apySamples := apySamples state @ [apy]\<rparr>
      in if i > 0
         then (let dailyRate = apy / 100 / 365
               in state1\<lparr>valueUsd := valueUsd state1 * (1 + dailyRate)\<rparr>)
         else state1)"

definition jsRem :: "real \<Rightarrow> real \<Rightarrow> real" where
  \<comment> \<open>The operator \<open>%\<close> on numbers, for a divisor other than 0: the quotient is truncated
      towards zero.\<close>
  "jsRem x y = x - y * of_int (if 0 \<le> x / y then \<lfloor>x / y\<rfloor> else \<lceil>x / y\<rceil>)"

definition isRebalanceDay :: "real \<Rightarrow> nat \<Rightarrow> bool" where
  "isRebalanceDay interval i \<longleftrightarrow> interval > 0 \<and> i > 0 \<and> jsRem (real i) interval = 0"

definition redistribute :: "real \<Rightarrow> AllocState \<Rightarrow> AllocState" where
  "redistribute totalAfterFees state = state\<lparr>valueUsd := totalAfterFees * (percentage state / 100)\<rparr>"

record LoopState =
  allocStates :: "AllocState list"
  timeSeries :: "TimeSeriesPoint list"
  peakValue :: real
  maxDrawdown :: real
  xcmFeesPaidUsd :: real
  rebalanceCount :: nat
  prevTotalValue :: real

definition dayStep :: "string list \<Rightarrow> real \<Rightarrow> real \<Rightarrow> LoopState \<Rightarrow> nat \<Rightarrow> LoopState" where
  \<comment> \<open>One iteration of \<open>for (let i = 0; i < days.length; i++)\<close>. A division by a zero
      \<open>prevTotalValue\<close> or \<open>peakValue\<close> is \<open>NaN\<close> or \<open>Infinity\<close> in the source and not
      meaningful here.\<close>
  "dayStep days interval fee st i =
     (let dateStr = days ! i;
          grown = map (applyGrowth i dateStr days) (allocStates st);
          rebalance = isRebalanceDay interval i;
          totalBefore = sumValues grown;
          crossChainCount = countCrossChainHops grown;
          feesThisRebalance = fee * crossChainCount;
          totalAfterFees = totalBefore - feesThisRebalance;
          states = (if rebalance then map (redistribute totalAfterFees) grown else grown);
          totalValue = sumValues states;
          dailyReturn = (if i = 0 then 0
                         else ((totalValue - prevTotalValue st) / prevTotalValue st) * 100);
          peak = (if totalValue > peakValue st then totalValue else peakValue st);
          drawdown = ((peak - totalValue) / peak) * 100
      in \<lparr>allocStates = states,
          timeSeries = timeSeries st @
            [\<lparr>date = dateStr, totalValueUsd = toFixed4 totalValue,
              dailyReturnPct = toFixed4 dailyReturn\<rparr>],
          peakValue = peak,
          maxDrawdown = (if drawdown > maxDrawdown st then drawdown else maxDrawdown st),
          xcmFeesPaidUsd = (if rebalance then xcmFeesPaidUsd st + feesThisRebalance
                            else xcmFeesPaidUsd st),
          rebalanceCount = (if rebalance then rebalanceCount st + 1 else rebalanceCount st),
          prevTotalValue = totalValue\<rparr>)"

definition initAllocState :: "real \<Rightarrow> DailyApyMap \<Rightarrow> BacktestAllocation \<Rightarrow> AllocState" where
  "initAllocState initial history alloc =
     \<lparr>protocol = a_protocol alloc,
      assetSymbol = a_assetSymbol alloc,
      poolType = (case a_poolType alloc of Some t \<Rightarrow> t | None \<Rightarrow> ''unknown''),
      percentage = a_percentage alloc,
      valueUsd = initial * (a_percentage alloc / 100),
      apyHistory = history,
      apySamples = [],
      ilLossUsd = 0\<rparr>"

definition initLoop :: "real \<Rightarrow> AllocState list \<Rightarrow> LoopState" where
  "initLoop initial states =
     \<lparr>allocStates = states, timeSeries = [], peakValue = initial, maxDrawdown = 0,
      xcmFeesPaidUsd = 0, rebalanceCount = 0, prevTotalValue = initial\<rparr>"

definition runDays :: "string list \<Rightarrow> real \<Rightarrow> real \<Rightarrow> LoopState \<Rightarrow> nat \<Rightarrow> LoopState" where
  \<comment> \<open>The loop up to, and without, day \<open>n\<close>.\<close>
  "runDays days interval fee st n = foldl (dayStep days interval fee) st [0..<n]"

definition applyIL :: "AllocState \<Rightarrow> AllocState" where
  "applyIL state =
     (if poolType state = ''dex'' \<or> poolType state = ''farming''
      then (let estimatedPriceRatio = estimatePriceRatio (length (apySamples state)) (apySamples state);
                il = calculateIL estimatedPriceRatio;
                ilLoss = valueUsd state * \<bar>il\<bar>
            in state\<lparr>ilLossUsd := toFixed4 ilLoss, valueUsd := valueUsd state - ilLoss\<rparr>)
      else state)"

section \<open>backtest.service.ts: runBacktest\<close>

text \<open>
  What \<open>runBacktest\<close> takes from outside the repository is a parameter of the model: the
  parser of \<open>new Date(s)\<close> (the time value in milliseconds, \<open>None\<close> for an invalid date),
  the first ten characters of \<open>toISOString()\<close>, the pools client and class-validator's
  \<open>IsDateString\<close>. The result carries, next to the value returned or the exception
  thrown, the protocols the pools client was asked for, in order.
\<close>

datatype BacktestError =
  AllocationsMustSumTo100 real
| FromMustBeBeforeTo
| DtoRejected
| InvalidTimeValue

datatype FetchResult = FetchThrows | FetchData "PoolHistoryRecord list option"

record Platform =
  parseDate :: "string \<Rightarrow> int option"
  isoDay :: "int \<Rightarrow> string"
  fetchPoolHistory :: "string \<Rightarrow> string \<Rightarrow> string \<Rightarrow> FetchResult"
  isDateString :: "string \<Rightarrow> bool"

record Summary =
  s_initialAmountUsd :: real
  s_finalAmountUsd :: real
  s_totalReturnUsd :: real
  s_totalReturnPercent :: real
  s_maxDrawdownPercent :: real
  s_sharpeRatio :: real
  s_durationDays :: int
  s_rebalancedCount :: nat
  s_xcmFeesPaidUsd :: real
  s_ilIncluded :: bool

record Breakdown =
  b_protocol :: string
  b_assetSymbol :: string
  b_poolType :: string
  b_allocationPercent :: real
  b_allocatedUsd :: real
  b_avgApyPercent :: real
  b_minApyPercent :: real
  b_maxApyPercent :: real
  b_ilLossUsd :: real
  b_finalUsd :: real
  b_returnUsd :: real
  b_returnPercent :: real
  b_dataPointsUsed :: nat
  b_hasHistoricalData :: bool

text \<open>
  Of the summary, \<open>annualizedApyPercent\<close> is left out: no property below reads it.
  Its \<open>from\<close> and \<open>to\<close> are \<open>fromDate.toISOString()\<close> and \<open>toDate.toISOString()\<close>;
  what is kept of them is the exception they throw on an invalid date.
\<close>

record BacktestResult =
  summary :: Summary
  breakdown :: "Breakdown list"
  res_timeSeries :: "TimeSeriesPoint list"

function buildDayListFrom :: "(int \<Rightarrow> string) \<Rightarrow> int \<Rightarrow> int \<Rightarrow> string list" where
  \<comment> \<open>\<open>setUTCDate(getUTCDate() + 1)\<close> adds one day, 86400000 ms.\<close>
  "buildDayListFrom toIso cursor endT =
     (if cursor \<le> endT then toIso cursor # buildDayListFrom toIso (cursor + 86400000) endT else [])"
  by pat_completeness auto
termination
  by (relation "measure (\<lambda>(toIso, cursor, endT). nat (endT - cursor + 1))") auto

declare buildDayListFrom.simps [simp del]

definition buildDayList :: "(int \<Rightarrow> string) \<Rightarrow> int option \<Rightarrow> int option \<Rightarrow> string list" where
  \<comment> \<open>With an invalid date the test \<open>cursor <= end\<close> is false at once.\<close>
  "buildDayList toIso start endD =
     (case (start, endD) of (Some s, Some e) \<Rightarrow> buildDayListFrom toIso s e | _ \<Rightarrow> [])"

definition dateGe :: "int option \<Rightarrow> int option \<Rightarrow> bool" where
  \<comment> \<open>\<open>fromDate >= toDate\<close>: false as soon as one of them is an invalid date.\<close>
  "dateGe a b = (case (a, b) of (Some x, Some y) \<Rightarrow> x \<ge> y | _ \<Rightarrow> False)"

definition uniqFirst :: "'a list \<Rightarrow> 'a list" where
  \<comment> \<open>\<open>[...new Set(xs)]\<close>: the first occurrence of each element, in order.\<close>
  "uniqFirst xs = rev (remdups (rev xs))"

definition minList :: "real list \<Rightarrow> real" where
  "minList xs = foldl min (hd xs) (tl xs)"

definition maxList :: "real list \<Rightarrow> real" where
  "maxList xs = foldl max (hd xs) (tl xs)"

definition buildBreakdown :: "real \<Rightarrow> AllocState \<Rightarrow> Breakdown" where
  "buildBreakdown initial state =
     (let allocatedUsd = initial * (percentage state / 100);
          returnUsd = valueUsd state - allocatedUsd;
          returnPct = (returnUsd / allocatedUsd) * 100;
          avgApy = (if length (apySamples state) > 0
                    then foldl (\<lambda>s v. s + v) 0 (apySamples state) / real (length (apySamples state))
                    else 0);
          minApy = (if length (apySamples state) > 0 then minList (apySamples state) else 0);
          maxApy = (if length (apySamples state) > 0 then maxList (apySamples state) else 0)
      in \<lparr>b_protocol = protocol state,
          b_assetSymbol = assetSymbol state,
          b_poolType = poolType state,
          b_allocationPercent = percentage state,
          b_allocatedUsd = toFixed4 allocatedUsd,
          b_avgApyPercent = toFixed4 avgApy,
          b_minApyPercent = toFixed4 minApy,
          b_maxApyPercent = toFixed4 maxApy,
          b_ilLossUsd = ilLossUsd state,
          b_finalUsd = toFixed4 (valueUsd state),
          b_returnUsd = toFixed4 returnUsd,
          b_returnPercent = toFixed4 returnPct,
          b_dataPointsUsed = length (apySamples state),
          b_hasHistoricalData = (length (map fst (apyHistory state)) > 0)\<rparr>)"

definition matchRecords :: "(string \<times> PoolHistoryRecord list) list \<Rightarrow> BacktestAllocation \<Rightarrow> PoolHistoryRecord list" where
  \<comment> \<open>\<open>(protocolHistoryCache[alloc.protocol] ?? []).filter(...)\<close>\<close>
  "matchRecords cache alloc =
     filter (\<lambda>r. toLowerCase (r_assetSymbol r) = toLowerCase (a_assetSymbol alloc))
       (case map_of cache (a_protocol alloc) of Some rs \<Rightarrow> rs | None \<Rightarrow> [])"

definition finalStates :: "bool \<Rightarrow> LoopState \<Rightarrow> AllocState list" where
  "finalStates il st = (if il then map applyIL (allocStates st) else allocStates st)"

definition optInterval :: "RunBacktestDto \<Rightarrow> real" where
  \<comment> \<open>\<open>rebalanceIntervalDays = 0\<close> when the request leaves it out\<close>
  "optInterval dto = (case rebalanceIntervalDays dto of Some r \<Rightarrow> r | None \<Rightarrow> 0)"

definition optIL :: "RunBacktestDto \<Rightarrow> bool" where
  "optIL dto = (case includeIL dto of Some b \<Rightarrow> b | None \<Rightarrow> False)"

definition optFee :: "RunBacktestDto \<Rightarrow> real" where
  "optFee dto = (case xcmFeeUsd dto of Some f \<Rightarrow> f | None \<Rightarrow> 1 / 2)"

definition initialStates ::
  "RunBacktestDto \<Rightarrow> (string \<times> PoolHistoryRecord list) list \<Rightarrow> AllocState list" where
  "initialStates dto cache =
     map (\<lambda>alloc. initAllocState (initialAmountUsd dto) (buildApyMap (matchRecords cache alloc)) alloc)
       (allocations dto)"

definition dayLoop ::
  "RunBacktestDto \<Rightarrow> string list \<Rightarrow> (string \<times> PoolHistoryRecord list) list \<Rightarrow> nat \<Rightarrow> LoopState" where
  \<comment> \<open>The variables of \<open>runBacktest\<close> when the day loop reaches index \<open>n\<close>; at
      \<open>n = length days\<close>, after the loop.\<close>
  "dayLoop dto days cache n =
     runDays days (optInterval dto) (optFee dto)
       (initLoop (initialAmountUsd dto) (initialStates dto cache)) n"

definition simulate ::
  "RunBacktestDto \<Rightarrow> string list \<Rightarrow> (string \<times> PoolHistoryRecord list) list \<Rightarrow> BacktestResult" where
  \<comment> \<open>\<open>runBacktest\<close> from the construction of \<open>allocStates\<close> to its \<open>return\<close>. A
      recorded \<open>dailyReturnPct\<close> is the double \<open>parseFloat\<close> reads from four decimals, and
      \<open>calcSharpe\<close> is given the doubles \<open>dailyReturnPct / 100\<close>.\<close>
  "simulate dto days cache =
     (let initial = initialAmountUsd dto;
          durationDays = int (length days) - 1;
          st = dayLoop dto days cache (length days);
          states = finalStates (optIL dto) st;
          finalTotalUsd = sumValues states;
          totalReturnUsd = finalTotalUsd - initial;
          totalReturnPct = (totalReturnUsd / initial) * 100;
          dailyReturns = map (\<lambda>t. fl64 (fl64 (dailyReturnPct t) / 100)) (drop 1 (timeSeries st));
          sharpeRatio = calcSharpe dailyReturns
      in \<lparr>summary =
            \<lparr>s_initialAmountUsd = initial,
             s_finalAmountUsd = toFixed4 finalTotalUsd,
             s_totalReturnUsd = toFixed4 totalReturnUsd,
             s_totalReturnPercent = toFixed4 totalReturnPct,
             s_maxDrawdownPercent = toFixed4 (- maxDrawdown st),
             s_sharpeRatio = toFixed4 sharpeRatio,
             s_durationDays = durationDays,
             s_rebalancedCount = rebalanceCount st,
             s_xcmFeesPaidUsd = toFixed4 (xcmFeesPaidUsd st),
             s_ilIncluded = optIL dto\<rparr>,
          breakdown = map (buildBreakdown initial) states,
          res_timeSeries = downsampleTimeSeries (timeSeries st) 500\<rparr>)"

definition fetchAll :: "Platform \<Rightarrow> RunBacktestDto \<Rightarrow> string list \<Rightarrow> (string \<times> PoolHistoryRecord list) list" where
  \<comment> \<open>\<open>protocolHistoryCache\<close> after \<open>Promise.all\<close>: a failed fetch and a response without
      \<open>data\<close> both leave the empty list.\<close>
  "fetchAll w dto protocolsNeeded =
     map (\<lambda>proto. (proto,
            (case fetchPoolHistory w proto (dto_from dto) (dto_to dto) of
               FetchThrows \<Rightarrow> []
             | FetchData d \<Rightarrow> (case d of Some rs \<Rightarrow> rs | None \<Rightarrow> []))))
       protocolsNeeded"

definition runBacktest ::
  "Platform \<Rightarrow> RunBacktestDto \<Rightarrow> string list \<times> (BacktestError + BacktestResult)" where
  \<comment> \<open>The summary's \<open>fromDate.toISOString()\<close> and \<open>toDate.toISOString()\<close> throw a
      \<open>RangeError\<close> on an invalid date: \<open>InvalidTimeValue\<close>, after the fetches and the
      simulation.\<close>
  "runBacktest w dto =
     (let total = foldl (\<lambda>s a. s + a_percentage a) 0 (allocations dto)
      in if (total > 10001 / 100 \<or> total < 9999 / 100) \<and> \<bar>total - 100\<bar> > 1 / 100
         then ([], Inl (AllocationsMustSumTo100 total))
         else
           (let fromDate = parseDate w (dto_from dto);
                toDate = parseDate w (dto_to dto)
            in if dateGe fromDate toDate then ([], Inl FromMustBeBeforeTo)
               else
                 (let days = buildDayList (isoDay w) fromDate toDate;
                      protocolsNeeded = uniqFirst (map a_protocol (allocations dto));
                      result = simulate dto days (fetchAll w dto protocolsNeeded)
                  in (protocolsNeeded,
                      (case (fromDate, toDate) of
                         (Some f, Some t) \<Rightarrow> Inr result
                       | _ \<Rightarrow> Inl InvalidTimeValue)))))"

section \<open>backtest.controller.ts: the validated request\<close>

definition validAllocationDto :: "BacktestAllocation \<Rightarrow> bool" where
  \<comment> \<open>\<open>@Min(0.01) @Max(100) percentage\<close>\<close>
  "validAllocationDto a \<longleftrightarrow> 1 / 100 \<le> a_percentage a \<and> a_percentage a \<le> 100"

definition validRunBacktestDto :: "Platform \<Rightarrow> RunBacktestDto \<Rightarrow> bool" where
  \<comment> \<open>The decorators of the controller's \<open>RunBacktestDto\<close>, checked by the global
      \<open>ValidationPipe\<close> of \<open>main.ts\<close>.\<close>
  "validRunBacktestDto w dto \<longleftrightarrow>
     1 \<le> initialAmountUsd dto
     \<and> isDateString w (dto_from dto)
     \<and> isDateString w (dto_to dto)
     \<and> 1 \<le> length (allocations dto)
     \<and> list_all validAllocationDto (allocations dto)
     \<and> (case rebalanceIntervalDays dto of Some r \<Rightarrow> 0 \<le> r | None \<Rightarrow> True)
     \<and> (case xcmFeeUsd dto of Some f \<Rightarrow> 0 \<le> f | None \<Rightarrow> True)"

definition postRun ::
  "Platform \<Rightarrow> RunBacktestDto \<Rightarrow> string list \<times> (BacktestError + BacktestResult)" where
  \<comment> \<open>\<open>POST /backtest/run\<close>: the pipe, then \<open>BacktestController.runBacktest\<close>.\<close>
  "postRun w dto = (if validRunBacktestDto w dto then runBacktest w dto else ([], Inl DtoRejected))"

section \<open>apy-calculator.service.ts\<close>

text \<open>
  A \<open>Date\<close> is its time value in milliseconds. The two repositories are the lists of their
  documents, in storage order. A query sorted on a field returns documents that agree on
  the field in storage order; the unique index on \<open>(tokenSymbol, blockNumber)\<close> leaves no
  such choice for the newest block. The price service, the clock and the first part of
  \<open>toISOString()\<close> are parameters.
\<close>

record VTokenExchangeRate =
  tokenSymbol :: string
  blockNumber :: nat
  timestamp :: int
  exchangeRateHuman :: real
  chain :: string

record ApySnapshot =
  asset :: string
  snap_timestamp :: int
  snap_blockNumber :: nat
  stakingApyPercent :: real
  farmingAprPercent :: real
  totalApyPercent :: real
  apy7d :: real
  apy30d :: real
  snap_exchangeRateHuman :: real
  baseTokenPriceUsd :: real
  snap_chain :: string
  granularity :: string
  createdAt :: int

definition BIFROST_CHAIN :: string where
  \<comment> \<open>\<open>BIFROST_CONFIG.CHAIN\<close>\<close>
  "BIFROST_CHAIN = ''bifrost-polkadot''"

definition lastOpt :: "'a list \<Rightarrow> 'a option" where
  \<comment> \<open>\<open>xs.pop()\<close>, \<open>undefined\<close> on the empty array\<close>
  "lastOpt xs = (if xs = [] then None else Some (last xs))"

definition findLatestByBlock :: "string \<Rightarrow> VTokenExchangeRate list \<Rightarrow> VTokenExchangeRate option" where
  \<comment> \<open>\<open>findOne({ where: { tokenSymbol }, order: { blockNumber: 'DESC' } })\<close>\<close>
  "findLatestByBlock tsym repo =
     lastOpt (sort_key blockNumber (filter (\<lambda>r. tokenSymbol r = tsym) repo))"

definition findAtOrBefore :: "string \<Rightarrow> int \<Rightarrow> VTokenExchangeRate list \<Rightarrow> VTokenExchangeRate option" where
  \<comment> \<open>\<open>findOne({ where: { tokenSymbol, timestamp: { $lte: t } }, order: { timestamp: 'DESC' } })\<close>\<close>
  "findAtOrBefore tsym t repo =
     lastOpt (sort_key timestamp (filter (\<lambda>r. tokenSymbol r = tsym \<and> timestamp r \<le> t) repo))"

definition findAllAscending :: "string \<Rightarrow> VTokenExchangeRate list \<Rightarrow> VTokenExchangeRate list" where
  \<comment> \<open>\<open>find({ where: { tokenSymbol }, order: { timestamp: 'ASC' } })\<close>\<close>
  "findAllAscending tsym repo = sort_key timestamp (filter (\<lambda>r. tokenSymbol r = tsym) repo)"

definition windowApy :: "real \<Rightarrow> int \<Rightarrow> VTokenExchangeRate option \<Rightarrow> real" where
  \<comment> \<open>The guarded block that sets \<open>apy7d\<close>, and \<open>apy30d\<close>, from its reference observation;
      it stands four times in the source. \<open>Math.pow\<close> of a base above 1 is \<open>powr\<close>.\<close>
  "windowApy currentRate currentTime ref =
     (case ref of
        None \<Rightarrow> 0
      | Some r \<Rightarrow>
          if exchangeRateHuman r > 0 \<and> currentRate > exchangeRateHuman r
          then (let daysDiff = real_of_int (currentTime - timestamp r) / (1000 * 60 * 60 * 24);
                    periodReturn = currentRate / exchangeRateHuman r - 1
                in (1 + periodReturn) powr (365 / daysDiff) - 1)
          else 0)"

definition jsOr :: "real \<Rightarrow> real \<Rightarrow> real" where
  \<comment> \<open>\<open>a || b\<close> on numbers: \<open>a\<close> unless it is 0\<close>
  "jsOr a b = (if a \<noteq> 0 then a else b)"

definition apyWindows ::
  "string \<Rightarrow> VTokenExchangeRate list
     \<Rightarrow> (VTokenExchangeRate \<times> VTokenExchangeRate option \<times> VTokenExchangeRate option) option" where
  \<comment> \<open>\<open>latest\<close>, \<open>rate7d\<close> and \<open>rate30d\<close> of \<open>computeApyForAsset\<close>; \<open>None\<close> is its early return\<close>
  "apyWindows tsym repo =
     (case findLatestByBlock tsym repo of
        None \<Rightarrow> None
      | Some latest \<Rightarrow>
          (let sevenDaysAgo = timestamp latest - 7 * 24 * 60 * 60 * 1000;
               rate7d = findAtOrBefore tsym sevenDaysAgo repo;
               thirtyDaysAgo = timestamp latest - 30 * 24 * 60 * 60 * 1000;
               rate30d = findAtOrBefore tsym thirtyDaysAgo repo
           in Some (latest, rate7d, rate30d)))"

definition computeDoc :: "string \<Rightarrow> real \<Rightarrow> int \<Rightarrow> VTokenExchangeRate list \<Rightarrow> ApySnapshot option" where
  \<comment> \<open>The document \<open>computeApyForAsset\<close> writes\<close>
  "computeDoc tsym price now repo =
     (case apyWindows tsym repo of
        None \<Rightarrow> None
      | Some (latest, rate7d, rate30d) \<Rightarrow>
          (let currentRate = exchangeRateHuman latest;
               a7 = windowApy currentRate (timestamp latest) rate7d;
               a30 = windowApy currentRate (timestamp latest) rate30d;
               stakingPercent = jsOr a7 a30 * 100;
               farmingPercent = 0;
               stakingApy = stakingPercent / 100;
               farmingApr = farmingPercent / 100;
               totalApy = (1 + stakingApy) * (1 + farmingApr) - 1;
               totalPercent = totalApy * 100
           in Some \<lparr>asset = tsym,
                    snap_timestamp = timestamp latest,
                    snap_blockNumber = blockNumber latest,
                    stakingApyPercent = toFixed4 stakingPercent,
                    farmingAprPercent = toFixed4 farmingPercent,
                    totalApyPercent = toFixed4 totalPercent,
                    apy7d = toFixed4 (a7 * 100),
                    apy30d = toFixed4 (a30 * 100),
                    snap_exchangeRateHuman = currentRate,
                    baseTokenPriceUsd = price,
                    snap_chain = BIFROST_CHAIN,
                    granularity = ''hourly'',
                    createdAt = now\<rparr>))"

fun upsert :: "(ApySnapshot \<Rightarrow> bool) \<Rightarrow> ApySnapshot \<Rightarrow> ApySnapshot list \<Rightarrow> ApySnapshot list" where
  \<comment> \<open>\<open>updateOne(filter, { $set: doc }, { upsert: true })\<close>, where \<open>doc\<close> sets every field\<close>
  "upsert matches doc [] = [doc]"
| "upsert matches doc (x # xs) = (if matches x then doc # xs else x # upsert matches doc xs)"

definition computeApyForAsset ::
  "string \<Rightarrow> real \<Rightarrow> int \<Rightarrow> VTokenExchangeRate list \<Rightarrow> ApySnapshot list \<Rightarrow> ApySnapshot list" where
  "computeApyForAsset tsym price now repo apyRepo =
     (case computeDoc tsym price now repo of
        None \<Rightarrow> apyRepo
      | Some doc \<Rightarrow>
          upsert (\<lambda>x. asset x = tsym \<and> snap_blockNumber x = snap_blockNumber doc
                       \<and> granularity x = ''hourly'') doc apyRepo)"

definition dailyRates ::
  "(int \<Rightarrow> string) \<Rightarrow> VTokenExchangeRate list \<Rightarrow> VTokenExchangeRate list" where
  \<comment> \<open>\<open>Array.from(dailyMap.values())\<close>: a key set again keeps its place and takes the new
      value\<close>
  "dailyRates toDay allRates =
     map snd (foldl (\<lambda>m r. AList.update (toDay (timestamp r)) r m) [] allRates)"

definition backfillDoc ::
  "string \<Rightarrow> real \<Rightarrow> int \<Rightarrow> VTokenExchangeRate list \<Rightarrow> VTokenExchangeRate \<Rightarrow> ApySnapshot option" where
  \<comment> \<open>One iteration of the loop over \<open>dailyRates\<close>: the document pushed, if one is\<close>
  "backfillDoc tsym price now allRates current =
     (let currentRate = exchangeRateHuman current;
          sevenDaysAgoTime = timestamp current - 7 * 24 * 60 * 60 * 1000;
          rate7d = lastOpt (filter (\<lambda>r. timestamp r \<le> sevenDaysAgoTime) allRates);
          thirtyDaysAgoTime = timestamp current - 30 * 24 * 60 * 60 * 1000;
          rate30d = lastOpt (filter (\<lambda>r. timestamp r \<le> thirtyDaysAgoTime) allRates);
          a7 = windowApy currentRate (timestamp current) rate7d;
          a30 = windowApy currentRate (timestamp current) rate30d;
          stakingPercent = jsOr a7 a30 * 100;
          farmingPercent = 0
      in if stakingPercent > 0
         then (let stakingApy = stakingPercent / 100;
                   farmingApr = farmingPercent / 100;
                   totalApy = (1 + stakingApy) * (1 + farmingApr) - 1;
                   totalPercent = totalApy * 100
               in Some \<lparr>asset = tsym,
                        snap_timestamp = timestamp current,
                        snap_blockNumber = blockNumber current,
                        stakingApyPercent = toFixed4 stakingPercent,
                        farmingAprPercent = toFixed4 farmingPercent,
                        totalApyPercent = toFixed4 totalPercent,
                        apy7d = toFixed4 (a7 * 100),
                        apy30d = toFixed4 (a30 * 100),
                        snap_exchangeRateHuman = currentRate,
                        baseTokenPriceUsd = price,
                        snap_chain = chain current,
                        granularity = ''hourly'',
                        createdAt = now\<rparr>)
         else None)"

definition backfillDocs ::
  "(int \<Rightarrow> string) \<Rightarrow> string \<Rightarrow> real \<Rightarrow> int \<Rightarrow> VTokenExchangeRate list \<Rightarrow> ApySnapshot list" where
  \<comment> \<open>The documents of \<open>bulkOps\<close>, in order\<close>
  "backfillDocs toDay tsym price now repo =
     (let allRates = findAllAscending tsym repo
      in List.map_filter (backfillDoc tsym price now allRates) (dailyRates toDay allRates))"

definition backfillApyHistory ::
  "(int \<Rightarrow> string) \<Rightarrow> string \<Rightarrow> real \<Rightarrow> int \<Rightarrow> VTokenExchangeRate list \<Rightarrow> ApySnapshot list
     \<Rightarrow> ApySnapshot list \<times> nat" where
  \<comment> \<open>The snapshot repository after \<open>bulkWrite\<close>, and the count returned\<close>
  "backfillApyHistory toDay tsym price now repo apyRepo =
     (let docs = backfillDocs toDay tsym price now repo
      in (foldl (\<lambda>store doc.
                   upsert (\<lambda>x. asset x = tsym \<and> snap_timestamp x = snap_timestamp doc
                                \<and> granularity x = ''hourly'') doc store)
            apyRepo docs,
          length docs))"

section \<open>Reference definitions\<close>




text \<open>
  The keys under which snapshots are written: the filter of the backfill's \<open>updateOne\<close>
  and the filter of \<open>computeApyForAsset\<close>'s.
\<close>

definition batchKey :: "ApySnapshot \<Rightarrow> string \<times> int \<times> string" where
  "batchKey d = (asset d, snap_timestamp d, granularity d)"

definition singleKey :: "ApySnapshot \<Rightarrow> string \<times> nat \<times> string" where
  "singleKey d = (asset d, snap_blockNumber d, granularity d)"

section \<open>Properties\<close>

subsection \<open>Downsampling of the time series\<close>

lemma stride_count_step:
  assumes "0 < step" "i < (n::nat)"
  shows "(n - i + step - 1) div step = Suc ((n - (i + step) + step - 1) div step)"
proof (cases "i + step \<le> n")
  case True
  then have "n - i + step - 1 = (n - (i + step) + step - 1) + step" using assms by simp
  moreover have "(A + step) div step = Suc (A div step)" for A using assms(1) by simp
  ultimately show ?thesis by (simp only:)
next
  case False
  then have a: "n - (i + step) = 0" by simp
  have "step \<le> n - i + step - 1" "n - i + step - 1 < 2 * step" using assms False by simp_all
  then have "(n - i + step - 1) div step = 1"
    by (intro div_nat_eqI) simp_all
  then show ?thesis using a assms by simp
qed

lemma map_upt_Suc_shift:
  "map f [0..<Suc c] = f 0 # map (\<lambda>k. f (Suc k)) [0..<c]"
proof -
  have a: "[0..<Suc c] = 0 # [Suc 0..<Suc c]" by (rule upt_conv_Cons) simp
  have b: "[Suc 0..<Suc c] = map Suc [0..<c]" by (rule map_Suc_upt[symmetric])
  show ?thesis by (simp only: a b list.map map_map o_def)
qed

lemma strideIndices_closed:
  "0 < step \<Longrightarrow> strideIndices n step i = map (\<lambda>k. i + k * step) [0..<(n - i + step - 1) div step]"
proof (induction n step i rule: strideIndices.induct)
  case (1 n step i)
  show ?case
  proof (cases "i < n")
    case False
    then have "strideIndices n step i = []" by (subst strideIndices.simps) simp
    moreover have "(n - i + step - 1) div step = 0" using False 1(2) by simp
    ultimately show ?thesis by simp
  next
    case True
    let ?c = "(n - (i + step) + step - 1) div step"
    have "strideIndices n step i = i # strideIndices n step (i + step)"
      using True 1(2) by (subst strideIndices.simps) simp
    also have "strideIndices n step (i + step) = map (\<lambda>k. (i + step) + k * step) [0..<?c]"
      using 1(1) True 1(2) by blast
    also have "i # map (\<lambda>k. (i + step) + k * step) [0..<?c] = map (\<lambda>k. i + k * step) [0..<Suc ?c]"
      unfolding map_upt_Suc_shift by (simp add: add.assoc)
    finally show ?thesis unfolding stride_count_step[OF 1(2) True] .
  qed
qed





lemma strideIndices_length:
  "0 < step \<Longrightarrow> length (strideIndices n step 0) = (n + step - 1) div step"
  by (simp add: strideIndices_closed)

lemma strideIndices_last:
  assumes "0 < step" "0 < n"
  shows "last (strideIndices n step 0) = ((n + step - 1) div step - 1) * step"
proof -
  let ?c = "(n + step - 1) div step"
  have "step \<le> n + step - 1" using assms by simp
  then have "0 < ?c" using assms(1) by (simp only: div_greater_zero_iff)
  then obtain c' where c: "?c = Suc c'" by (cases ?c) simp_all
  have "strideIndices n step 0 = map (\<lambda>k. 0 + k * step) [0..<?c]"
    using strideIndices_closed[OF assms(1), of n 0] by simp
  then have "strideIndices n step 0 = map (\<lambda>k. k * step) [0..<c'] @ [c' * step]"
    unfolding c by simp
  then show ?thesis unfolding c by simp
qed


lemma downsample_short:
  "length series \<le> maxPoints \<Longrightarrow> downsampleTimeSeries series maxPoints = series"
  by (simp add: downsampleTimeSeries_def)

lemma downsample_length:
  assumes "0 < maxPoints" "maxPoints < length series"
  shows "length (downsampleTimeSeries series maxPoints) =
           (let step = (length series + maxPoints - 1) div maxPoints;
                c = (length series + step - 1) div step
            in if (c - 1) * step \<noteq> length series - 1 then c + 1 else c)"
proof -
  let ?n = "length series"
  let ?step = "(?n + maxPoints - 1) div maxPoints"
  have "maxPoints \<le> ?n + maxPoints - 1" using assms by simp
  then have st: "0 < ?step" using assms(1) by (simp only: div_greater_zero_iff)
  have n: "0 < ?n" using assms by (cases series) simp_all
  have d: "downsampleTimeSeries series maxPoints =
        (let idxs = strideIndices ?n ?step 0; result = map (\<lambda>i. series ! i) idxs
         in if last idxs \<noteq> ?n - 1 then result @ [series ! (?n - 1)] else result)"
    using assms by (simp add: downsampleTimeSeries_def)
  show ?thesis
    unfolding d Let_def strideIndices_last[OF st n]
    using strideIndices_length[OF st, of ?n] by simp
qed

lemma downsample_1000_len:
  assumes "length series = 1000"
  shows "length (downsampleTimeSeries series 500) = 501"
proof -
  have "length (downsampleTimeSeries series 500) =
           (let step = (length series + 500 - 1) div 500;
                c = (length series + step - 1) div step
            in if (c - 1) * step \<noteq> length series - 1 then c + 1 else c)"
    by (rule downsample_length) (simp_all add: assms)
  then show ?thesis unfolding assms Let_def by simp
qed

lemma downsampleTimeSeries_1000_points:
  "length (downsampleTimeSeries
             (map (\<lambda>i. \<lparr>date = ''d'', totalValueUsd = real i, dailyReturnPct = 0\<rparr>) [0..<1000])
             500) = 501"
  by (rule downsample_1000_len) (simp only: length_map length_upt diff_zero)

subsection \<open>The yield lookup\<close>

lemma sorted_last_Max:
  fixes xs :: "'a::linorder list"
  shows "sorted xs \<Longrightarrow> xs \<noteq> [] \<Longrightarrow> last xs = Max (set xs)"
proof (induction xs)
  case Nil
  then show ?case by simp
next
  case (Cons x xs)
  show ?case
  proof (cases "xs = []")
    case True
    then show ?thesis by simp
  next
    case False
    with Cons have "last xs = Max (set xs)" by simp
    moreover have "hd xs \<in> set xs" using False by simp
    then have "x \<le> hd xs" "hd xs \<le> Max (set xs)" using Cons.prems by auto
    then have "x \<le> Max (set xs)" by (rule order_trans)
    ultimately show ?thesis using False by (simp add: max_def)
  qed
qed

lemma sorted_hd_Min:
  fixes xs :: "'a::linorder list"
  shows "sorted xs \<Longrightarrow> xs \<noteq> [] \<Longrightarrow> hd xs = Min (set xs)"
  by (cases xs) (auto simp: Min_insert2)

lemma map_of_key_Some:
  "k \<in> fst ` set m \<Longrightarrow> \<exists>v. map_of m k = Some v"
  by (metis domD dom_map_of_conv_image_fst)

lemma sort_Nil_iff: "sort xs = [] \<longleftrightarrow> xs = []"
proof
  assume "sort xs = []"
  then have "length (sort xs) = 0" by simp
  then show "xs = []" by simp
qed simp

lemma getApyForDay_exact:
  "map_of m d = Some v \<Longrightarrow> getApyForDay m d days = v"
  by (simp add: getApyForDay_def)

lemma getApyForDay_empty: "getApyForDay [] d days = 0"
  by (simp add: getApyForDay_def)

lemma getApyForDay_past:
  assumes "map_of m d = None" "{k \<in> fst ` set m. k < d} \<noteq> {}"
  shows "map_of m (Max {k \<in> fst ` set m. k < d}) = Some (getApyForDay m d days)"
proof -
  let ?keys = "sort (map fst m)"
  let ?past = "filter (\<lambda>k. k \<le> d) ?keys"
  have dn: "d \<notin> fst ` set m" using assms(1) by (simp add: map_of_eq_None_iff)
  then have eq: "{k \<in> fst ` set m. k < d} = set ?past" by (auto simp: less_le)
  have "set ?past \<noteq> {}" unfolding eq[symmetric] by (rule assms(2))
  then have ne: "?past \<noteq> []" by (simp only: set_empty not_False_eq_True)
  have "sorted ?past" by (rule sorted_wrt_filter) simp
  then have "last ?past = Max (set ?past)" using ne by (rule sorted_last_Max)
  then have l: "last ?past = Max {k \<in> fst ` set m. k < d}" unfolding eq .
  have "Max {k \<in> fst ` set m. k < d} \<in> {k \<in> fst ` set m. k < d}"
    by (rule Max_in) (use assms(2) in auto)
  then have "Max {k \<in> fst ` set m. k < d} \<in> fst ` set m" by simp
  from map_of_key_Some[OF this]
  obtain v where v: "map_of m (Max {k \<in> fst ` set m. k < d}) = Some v" ..
  have mne: "m \<noteq> []" using assms(2) by auto
  have "getApyForDay m d days = the (map_of m (last ?past))"
    using assms(1) ne mne by (simp add: getApyForDay_def Let_def sort_Nil_iff)
  then show ?thesis using l v by simp
qed

lemma getApyForDay_future:
  assumes "map_of m d = None" "{k \<in> fst ` set m. k < d} = {}" "m \<noteq> []"
  shows "{k \<in> fst ` set m. d < k} = fst ` set m
         \<and> map_of m (Min {k \<in> fst ` set m. d < k}) = Some (getApyForDay m d days)"
proof -
  let ?keys = "sort (map fst m)"
  let ?past = "filter (\<lambda>k. k \<le> d) ?keys"
  have dn: "d \<notin> fst ` set m" using assms(1) by (simp add: map_of_eq_None_iff)
  have lt: "d < k" if "k \<in> fst ` set m" for k
  proof -
    have "\<not> k < d" using assms(2) that by blast
    moreover have "k \<noteq> d" using dn that by blast
    ultimately show ?thesis using linorder_less_linear[of k d] by blast
  qed
  have fut: "{k \<in> fst ` set m. d < k} = fst ` set m"
    using lt by blast
  have "\<not> k \<le> d" if "k \<in> set ?keys" for k using lt[of k] that by (simp add: not_le)
  then have pe: "?past = []" by (simp add: filter_empty_conv)
  have kne: "?keys \<noteq> []"
  proof
    assume "?keys = []"
    then have "length ?keys = 0" by simp
    then show False using assms(3) by simp
  qed
  have h: "hd ?keys = Min (fst ` set m)"
    using sorted_hd_Min[of ?keys] kne by simp
  have "Min (fst ` set m) \<in> fst ` set m"
    by (rule Min_in) (use assms(3) in auto)
  from map_of_key_Some[OF this]
  obtain v where v: "map_of m (Min (fst ` set m)) = Some v" ..
  have "getApyForDay m d days = the (map_of m (hd ?keys))"
    using assms(1,3) pe by (simp add: getApyForDay_def Let_def sort_Nil_iff)
  then show ?thesis using h v fut by simp
qed

text \<open>
  C2. The yield of a day is the value stored at that date when there is one; otherwise the
  value at the latest earlier key; otherwise the value at the earliest later key; and the
  fallback 0 is taken only for a map without any key: with at least one key the result is a
  stored value. Keys are \<open>"YYYY-MM-DD"\<close> strings, compared as strings.
\<close>

theorem getApyForDay_policy:
  "(\<forall>v. map_of m d = Some v \<longrightarrow> getApyForDay m d days = v)
   \<and> (map_of m d = None \<and> {k \<in> fst ` set m. k < d} \<noteq> {}
        \<longrightarrow> map_of m (Max {k \<in> fst ` set m. k < d}) = Some (getApyForDay m d days))
   \<and> (map_of m d = None \<and> {k \<in> fst ` set m. k < d} = {} \<and> {k \<in> fst ` set m. d < k} \<noteq> {}
        \<longrightarrow> map_of m (Min {k \<in> fst ` set m. d < k}) = Some (getApyForDay m d days))
   \<and> (fst ` set m = {} \<longrightarrow> getApyForDay m d days = 0)
   \<and> (fst ` set m \<noteq> {} \<longrightarrow> (\<exists>k. map_of m k = Some (getApyForDay m d days)))"
proof (intro conjI allI impI)
  fix v assume "map_of m d = Some v"
  then show "getApyForDay m d days = v" by (rule getApyForDay_exact)
next
  assume a: "map_of m d = None \<and> {k \<in> fst ` set m. k < d} \<noteq> {}"
  show "map_of m (Max {k \<in> fst ` set m. k < d}) = Some (getApyForDay m d days)"
    by (rule getApyForDay_past[OF conjunct1[OF a] conjunct2[OF a]])
next
  assume a: "map_of m d = None \<and> {k \<in> fst ` set m. k < d} = {} \<and> {k \<in> fst ` set m. d < k} \<noteq> {}"
  have f: "{k \<in> fst ` set m. d < k} \<noteq> {}" by (rule conjunct2[OF conjunct2[OF a]])
  have mne: "m \<noteq> []"
  proof
    assume "m = []"
    then have "{k \<in> fst ` set m. d < k} = {}" by simp
    with f show False by (rule notE)
  qed
  from a have n: "map_of m d = None" by (rule conjunct1)
  have p: "{k \<in> fst ` set m. k < d} = {}" by (rule conjunct1[OF conjunct2[OF a]])
  show "map_of m (Min {k \<in> fst ` set m. d < k}) = Some (getApyForDay m d days)"
    by (rule conjunct2[OF getApyForDay_future[OF n p mne]])
next
  assume "fst ` set m = {}"
  then have "m = []" by simp
  then show "getApyForDay m d days = 0" by (simp add: getApyForDay_empty)
next
  assume ne: "fst ` set m \<noteq> {}"
  have mne: "m \<noteq> []"
  proof
    assume "m = []"
    then have "fst ` set m = {}" by simp
    with ne show False by (rule notE)
  qed
  show "\<exists>k. map_of m k = Some (getApyForDay m d days)"
  proof (cases "map_of m d")
    case (Some v)
    show ?thesis
      by (rule exI[of _ d]) (simp add: Some getApyForDay_exact[OF Some])
  next
    case None
    show ?thesis
    proof (cases "{k \<in> fst ` set m. k < d} = {}")
      case True
      show ?thesis
        by (rule exI[of _ "Min {k \<in> fst ` set m. d < k}"])
           (rule conjunct2[OF getApyForDay_future[OF None True mne]])
    next
      case False
      show ?thesis
        by (rule exI[of _ "Max {k \<in> fst ` set m. k < d}"])
           (rule getApyForDay_past[OF None False])
    qed
  qed
qed

lemma apyMap_example_past:
  "{k \<in> fst ` set [(''2024-01-05'', 7::real), (''2024-01-02'', 3)]. k < ''2024-01-03''} = {''2024-01-02''}"
  by auto

lemma apyMap_example_none_past:
  "{k \<in> fst ` set [(''2024-01-05'', 7::real), (''2024-01-02'', 3)]. k < ''2024-01-01''} = {}"
  by auto

lemma apyMap_example_future:
  "{k \<in> fst ` set [(''2024-01-05'', 7::real), (''2024-01-02'', 3)]. ''2024-01-01'' < k}
     = {''2024-01-05'', ''2024-01-02''}"
  by auto

theorem getApyForDay_policy_witness:
  "map_of [(''2024-01-05'', 7::real), (''2024-01-02'', 3)] ''2024-01-05'' = Some 7
   \<and> getApyForDay [(''2024-01-05'', 7), (''2024-01-02'', 3)] ''2024-01-05'' [] = 7
   \<and> map_of [(''2024-01-05'', 7::real), (''2024-01-02'', 3)] ''2024-01-03'' = None
   \<and> {k \<in> fst ` set [(''2024-01-05'', 7::real), (''2024-01-02'', 3)]. k < ''2024-01-03''} \<noteq> {}
   \<and> getApyForDay [(''2024-01-05'', 7), (''2024-01-02'', 3)] ''2024-01-03'' [] = 3
   \<and> map_of [(''2024-01-05'', 7::real), (''2024-01-02'', 3)] ''2024-01-01'' = None
   \<and> {k \<in> fst ` set [(''2024-01-05'', 7::real), (''2024-01-02'', 3)]. k < ''2024-01-01''} = {}
   \<and> {k \<in> fst ` set [(''2024-01-05'', 7::real), (''2024-01-02'', 3)]. ''2024-01-01'' < k} \<noteq> {}
   \<and> getApyForDay [(''2024-01-05'', 7), (''2024-01-02'', 3)] ''2024-01-01'' [] = 3
   \<and> fst ` set ([] :: DailyApyMap) = {}
   \<and> getApyForDay [] ''2024-01-01'' [] = 0"
  using getApyForDay_policy[of "[(''2024-01-05'', 7), (''2024-01-02'', 3)]" "''2024-01-05''" "[]"]
        getApyForDay_policy[of "[(''2024-01-05'', 7), (''2024-01-02'', 3)]" "''2024-01-03''" "[]"]
        getApyForDay_policy[of "[(''2024-01-05'', 7), (''2024-01-02'', 3)]" "''2024-01-01''" "[]"]
        getApyForDay_policy[of "[]" "''2024-01-01''" "[]"]
  unfolding apyMap_example_past apyMap_example_none_past apyMap_example_future
  by simp

subsection \<open>The day loop\<close>

lemma foldl_add_sum_list:
  fixes f :: "'a \<Rightarrow> real"
  shows "foldl (\<lambda>s a. s + f a) acc xs = acc + sum_list (map f xs)"
  by (induction xs arbitrary: acc) simp_all

lemma sumValues_sum_list: "sumValues states = sum_list (map valueUsd states)"
  by (simp add: sumValues_def foldl_add_sum_list)

lemma runDays_0: "runDays days interval fee st 0 = st"
  by (simp add: runDays_def)

lemma runDays_Suc:
  "runDays days interval fee st (Suc n) = dayStep days interval fee (runDays days interval fee st n) n"
  by (simp add: runDays_def)


lemma applyGrowth_fields:
  "percentage (applyGrowth i dateStr days s) = percentage s"
  "apyHistory (applyGrowth i dateStr days s) = apyHistory s"
  "protocol (applyGrowth i dateStr days s) = protocol s"
  "assetSymbol (applyGrowth i dateStr days s) = assetSymbol s"
  "poolType (applyGrowth i dateStr days s) = poolType s"
  "ilLossUsd (applyGrowth i dateStr days s) = ilLossUsd s"
  "apySamples (applyGrowth i dateStr days s) = apySamples s @ [getApyForDay (apyHistory s) dateStr days]"
  by (simp_all add: applyGrowth_def Let_def)

lemma redistribute_fields:
  "valueUsd (redistribute t s) = t * (percentage s / 100)"
  "percentage (redistribute t s) = percentage s"
  "apyHistory (redistribute t s) = apyHistory s"
  "protocol (redistribute t s) = protocol s"
  "assetSymbol (redistribute t s) = assetSymbol s"
  "poolType (redistribute t s) = poolType s"
  "ilLossUsd (redistribute t s) = ilLossUsd s"
  "apySamples (redistribute t s) = apySamples s"
  by (simp_all add: redistribute_def)

lemma dayStep_allocStates:
  "allocStates (dayStep days interval fee st i) =
     (let grown = map (applyGrowth i (days ! i) days) (allocStates st)
      in if isRebalanceDay interval i
         then map (redistribute (sumValues grown - fee * countCrossChainHops grown)) grown
         else grown)"
  by (simp add: dayStep_def Let_def)

lemma dayStep_maxDrawdown:
  "maxDrawdown (dayStep days interval fee st i) =
     max (maxDrawdown st)
       (((peakValue (dayStep days interval fee st i) - prevTotalValue (dayStep days interval fee st i))
          / peakValue (dayStep days interval fee st i)) * 100)"
  by (simp add: dayStep_def Let_def max_def)

lemma dayStep_peakValue:
  "peakValue (dayStep days interval fee st i) =
     max (peakValue st) (prevTotalValue (dayStep days interval fee st i))"
  by (simp add: dayStep_def Let_def max_def)

lemma dayStep_prevTotalValue:
  "prevTotalValue (dayStep days interval fee st i) = sumValues (allocStates (dayStep days interval fee st i))"
  by (simp add: dayStep_def Let_def)

lemma dayStep_timeSeries:
  "timeSeries (dayStep days interval fee st i) =
     timeSeries st @
       [\<lparr>date = days ! i,
         totalValueUsd = toFixed4 (sumValues (allocStates (dayStep days interval fee st i))),
         dailyReturnPct = toFixed4
           (if i = 0 then 0
            else ((sumValues (allocStates (dayStep days interval fee st i)) - prevTotalValue st)
                    / prevTotalValue st) * 100)\<rparr>]"
  by (simp add: dayStep_def Let_def)

lemma dayStep_fees:
  "xcmFeesPaidUsd (dayStep days interval fee st i) =
     (if isRebalanceDay interval i
      then xcmFeesPaidUsd st
             + fee * countCrossChainHops (map (applyGrowth i (days ! i) days) (allocStates st))
      else xcmFeesPaidUsd st)"
  "rebalanceCount (dayStep days interval fee st i) =
     (if isRebalanceDay interval i then rebalanceCount st + 1 else rebalanceCount st)"
  by (simp_all add: dayStep_def Let_def)

lemma toFixed4_nonpos: "x \<le> 0 \<Longrightarrow> toFixed4 x \<le> 0"
proof -
  assume x: "x \<le> 0"
  have "0 \<le> \<lfloor>- x * 10000 + 1 / 2\<rfloor>" using x by simp
  then have a: "- (of_int \<lfloor>- x * 10000 + 1 / 2\<rfloor> / 10000) \<le> (0::real)" by simp
  have b: "x = 0 \<Longrightarrow> of_int \<lfloor>x * 10000 + 1 / 2\<rfloor> / 10000 = (0::real)" by simp
  show ?thesis using x a b unfolding toFixed4_def by (cases "x < 0") auto
qed


lemma dayLoop_0:
  "dayLoop dto days cache 0 = initLoop (initialAmountUsd dto) (initialStates dto cache)"
  by (simp add: dayLoop_def runDays_0)

lemma dayLoop_Suc:
  "dayLoop dto days cache (Suc n) =
     dayStep days (optInterval dto) (optFee dto) (dayLoop dto days cache n) n"
  by (simp add: dayLoop_def runDays_Suc)

lemma dayLoop_maxDrawdown_nonneg: "0 \<le> maxDrawdown (dayLoop dto days cache n)"
proof (induction n)
  case 0
  show ?case by (simp add: dayLoop_0 initLoop_def)
next
  case (Suc n)
  have "maxDrawdown (dayLoop dto days cache n) \<le> maxDrawdown (dayLoop dto days cache (Suc n))"
    unfolding dayLoop_Suc by (subst dayStep_maxDrawdown) simp
  with Suc show ?case by simp
qed

lemma dayLoop_maxDrawdown_mono:
  "maxDrawdown (dayLoop dto days cache n) \<le> maxDrawdown (dayLoop dto days cache (Suc n))"
  unfolding dayLoop_Suc by (subst dayStep_maxDrawdown) simp

lemma dayLoop_maxDrawdown_Max:
  "maxDrawdown (dayLoop dto days cache n) =
     Max (insert 0 ((\<lambda>i. ((peakValue (dayLoop dto days cache (Suc i))
                             - prevTotalValue (dayLoop dto days cache (Suc i)))
                            / peakValue (dayLoop dto days cache (Suc i))) * 100) ` {..<n}))"
  (is "_ = Max (insert 0 (?dd ` {..<n}))")
proof (induction n)
  case 0
  show ?case by (simp add: dayLoop_0 initLoop_def)
next
  case (Suc n)
  have "maxDrawdown (dayLoop dto days cache (Suc n)) = max (maxDrawdown (dayLoop dto days cache n)) (?dd n)"
    unfolding dayLoop_Suc by (subst dayStep_maxDrawdown) simp
  also have "\<dots> = max (Max (insert 0 (?dd ` {..<n}))) (?dd n)" using Suc by simp
  also have "\<dots> = Max (insert (?dd n) (insert 0 (?dd ` {..<n})))"
    by (subst Max_insert) (simp_all add: max.commute)
  also have "insert (?dd n) (insert 0 (?dd ` {..<n})) = insert 0 (?dd ` {..<Suc n})"
    by (simp add: lessThan_Suc insert_commute)
  finally show ?case .
qed

lemma simulate_maxDrawdown:
  "s_maxDrawdownPercent (summary (simulate dto days cache)) =
     toFixed4 (- maxDrawdown (dayLoop dto days cache (length days)))"
  by (simp add: simulate_def Let_def)

lemma dayLoop_prevTotalValue:
  "prevTotalValue (dayLoop dto days cache (Suc n)) = sumValues (allocStates (dayLoop dto days cache (Suc n)))"
  unfolding dayLoop_Suc by (rule dayStep_prevTotalValue)

lemma dayLoop_peakValue_Max:
  "peakValue (dayLoop dto days cache n) =
     Max (insert (initialAmountUsd dto)
            ((\<lambda>i. sumValues (allocStates (dayLoop dto days cache (Suc i)))) ` {..<n}))"
  (is "_ = Max (insert ?a (?t ` {..<n}))")
proof (induction n)
  case 0
  show ?case by (simp add: dayLoop_0 initLoop_def)
next
  case (Suc n)
  have "peakValue (dayLoop dto days cache (Suc n)) = max (peakValue (dayLoop dto days cache n)) (?t n)"
    unfolding dayLoop_prevTotalValue[symmetric] unfolding dayLoop_Suc by (rule dayStep_peakValue)
  also have "\<dots> = max (Max (insert ?a (?t ` {..<n}))) (?t n)" using Suc by simp
  also have "\<dots> = Max (insert (?t n) (insert ?a (?t ` {..<n})))"
    by (subst Max_insert) (simp_all add: max.commute)
  also have "insert (?t n) (insert ?a (?t ` {..<n})) = insert ?a (?t ` {..<Suc n})"
    by (simp add: lessThan_Suc insert_commute)
  finally show ?case .
qed

lemma dayLoop_maxDrawdown_totals:
  "maxDrawdown (dayLoop dto days cache n) =
     Max (insert 0
       ((\<lambda>i. ((Max (insert (initialAmountUsd dto)
                       ((\<lambda>j. sumValues (allocStates (dayLoop dto days cache (Suc j)))) ` {..i}))
                  - sumValues (allocStates (dayLoop dto days cache (Suc i))))
                 / Max (insert (initialAmountUsd dto)
                         ((\<lambda>j. sumValues (allocStates (dayLoop dto days cache (Suc j)))) ` {..i}))) * 100)
          ` {..<n}))"
proof -
  have "(\<lambda>i. ((peakValue (dayLoop dto days cache (Suc i))
                 - prevTotalValue (dayLoop dto days cache (Suc i)))
                / peakValue (dayLoop dto days cache (Suc i))) * 100)
        = (\<lambda>i. ((Max (insert (initialAmountUsd dto)
                       ((\<lambda>j. sumValues (allocStates (dayLoop dto days cache (Suc j)))) ` {..i}))
                  - sumValues (allocStates (dayLoop dto days cache (Suc i))))
                 / Max (insert (initialAmountUsd dto)
                         ((\<lambda>j. sumValues (allocStates (dayLoop dto days cache (Suc j)))) ` {..i}))) * 100)"
    by (rule ext) (simp only: dayLoop_peakValue_Max[of dto days cache "Suc _"] lessThan_Suc_atMost
          dayLoop_prevTotalValue)
  then show ?thesis by (simp only: dayLoop_maxDrawdown_Max[of dto days cache n])
qed

text \<open>
  C6. At every point of the day loop the tracked maximum drawdown is at least 0, it does not
  decrease from one day to the next, and it is the greatest of 0 and the drawdowns
  \<open>(peak - value) / peak * 100\<close> of the days so far. The value of a day is the sum of the
  allocation values at the end of that day; the peak is the greatest of the initial amount
  and the values of the days so far. Before the first day the peak is the initial amount
  and the maximum drawdown is 0. The summary reports the negation of the maximum drawdown,
  through \<open>toFixed(4)\<close>, which is never positive.
\<close>

theorem maxDrawdown_tracking:
  "0 \<le> maxDrawdown (dayLoop dto days cache n)
   \<and> maxDrawdown (dayLoop dto days cache n) \<le> maxDrawdown (dayLoop dto days cache (Suc n))
   \<and> peakValue (dayLoop dto days cache (Suc n)) =
       max (peakValue (dayLoop dto days cache n)) (prevTotalValue (dayLoop dto days cache (Suc n)))
   \<and> maxDrawdown (dayLoop dto days cache n) =
       Max (insert 0 ((\<lambda>i. ((peakValue (dayLoop dto days cache (Suc i))
                               - prevTotalValue (dayLoop dto days cache (Suc i)))
                              / peakValue (dayLoop dto days cache (Suc i))) * 100) ` {..<n}))
   \<and> s_maxDrawdownPercent (summary (simulate dto days cache)) =
       toFixed4 (- maxDrawdown (dayLoop dto days cache (length days)))
   \<and> s_maxDrawdownPercent (summary (simulate dto days cache)) \<le> 0
   \<and> peakValue (dayLoop dto days cache 0) = initialAmountUsd dto
   \<and> maxDrawdown (dayLoop dto days cache 0) = 0
   \<and> prevTotalValue (dayLoop dto days cache (Suc n)) =
       sumValues (allocStates (dayLoop dto days cache (Suc n)))
   \<and> peakValue (dayLoop dto days cache n) =
       Max (insert (initialAmountUsd dto)
              ((\<lambda>i. sumValues (allocStates (dayLoop dto days cache (Suc i)))) ` {..<n}))
   \<and> maxDrawdown (dayLoop dto days cache n) =
       Max (insert 0
         ((\<lambda>i. ((Max (insert (initialAmountUsd dto)
                         ((\<lambda>j. sumValues (allocStates (dayLoop dto days cache (Suc j)))) ` {..i}))
                    - sumValues (allocStates (dayLoop dto days cache (Suc i))))
                   / Max (insert (initialAmountUsd dto)
                           ((\<lambda>j. sumValues (allocStates (dayLoop dto days cache (Suc j)))) ` {..i}))) * 100)
            ` {..<n}))"
proof (intro conjI)
  show "0 \<le> maxDrawdown (dayLoop dto days cache n)" by (rule dayLoop_maxDrawdown_nonneg)
  show "maxDrawdown (dayLoop dto days cache n) \<le> maxDrawdown (dayLoop dto days cache (Suc n))"
    by (rule dayLoop_maxDrawdown_mono)
  show "peakValue (dayLoop dto days cache (Suc n)) =
       max (peakValue (dayLoop dto days cache n)) (prevTotalValue (dayLoop dto days cache (Suc n)))"
    unfolding dayLoop_Suc by (rule dayStep_peakValue)
  show "maxDrawdown (dayLoop dto days cache n) =
       Max (insert 0 ((\<lambda>i. ((peakValue (dayLoop dto days cache (Suc i))
                               - prevTotalValue (dayLoop dto days cache (Suc i)))
                              / peakValue (dayLoop dto days cache (Suc i))) * 100) ` {..<n}))"
    by (rule dayLoop_maxDrawdown_Max)
  show "s_maxDrawdownPercent (summary (simulate dto days cache)) =
       toFixed4 (- maxDrawdown (dayLoop dto days cache (length days)))"
    by (rule simulate_maxDrawdown)
  show "s_maxDrawdownPercent (summary (simulate dto days cache)) \<le> 0"
    unfolding simulate_maxDrawdown
    by (rule toFixed4_nonpos) (use dayLoop_maxDrawdown_nonneg[of dto days cache "length days"] in simp)
  show "peakValue (dayLoop dto days cache 0) = initialAmountUsd dto"
    by (simp add: dayLoop_0 initLoop_def)
  show "maxDrawdown (dayLoop dto days cache 0) = 0"
    by (simp add: dayLoop_0 initLoop_def)
  show "prevTotalValue (dayLoop dto days cache (Suc n)) =
       sumValues (allocStates (dayLoop dto days cache (Suc n)))"
    by (rule dayLoop_prevTotalValue)
  show "peakValue (dayLoop dto days cache n) =
       Max (insert (initialAmountUsd dto)
              ((\<lambda>i. sumValues (allocStates (dayLoop dto days cache (Suc i)))) ` {..<n}))"
    by (rule dayLoop_peakValue_Max)
  show "maxDrawdown (dayLoop dto days cache n) =
       Max (insert 0
         ((\<lambda>i. ((Max (insert (initialAmountUsd dto)
                         ((\<lambda>j. sumValues (allocStates (dayLoop dto days cache (Suc j)))) ` {..i}))
                    - sumValues (allocStates (dayLoop dto days cache (Suc i))))
                   / Max (insert (initialAmountUsd dto)
                           ((\<lambda>j. sumValues (allocStates (dayLoop dto days cache (Suc j)))) ` {..i}))) * 100)
            ` {..<n}))"
    by (rule dayLoop_maxDrawdown_totals)
qed

subsection \<open>Compounding and rebalancing\<close>

lemma jsRem_zero_iff:
  assumes "0 < r" "0 < i"
  shows "jsRem (real i) r = 0 \<longleftrightarrow> (\<exists>k::nat. 0 < k \<and> real i = real k * r)"
proof
  assume z: "jsRem (real i) r = 0"
  have q: "0 < real i / r" using assms by simp
  then have "real i = r * of_int \<lfloor>real i / r\<rfloor>" using z by (simp add: jsRem_def)
  moreover have "0 < \<lfloor>real i / r\<rfloor>"
  proof (rule ccontr)
    assume "\<not> 0 < \<lfloor>real i / r\<rfloor>"
    then have "\<lfloor>real i / r\<rfloor> \<le> 0" by simp
    moreover have "0 \<le> \<lfloor>real i / r\<rfloor>" using q by simp
    ultimately have "\<lfloor>real i / r\<rfloor> = 0" by (rule antisym)
    then have "real i = 0" using \<open>real i = r * of_int \<lfloor>real i / r\<rfloor>\<close> by simp
    then show False using assms(2) by simp
  qed
  ultimately have "0 < nat \<lfloor>real i / r\<rfloor> \<and> real i = real (nat \<lfloor>real i / r\<rfloor>) * r"
    by (simp add: mult.commute)
  then show "\<exists>k::nat. 0 < k \<and> real i = real k * r" by (rule exI)
next
  assume "\<exists>k::nat. 0 < k \<and> real i = real k * r"
  then obtain k :: nat where k: "0 < k" "real i = real k * r" by (elim exE conjE)
  have "real i / r = real k" using k(2) assms(1) by simp
  then show "jsRem (real i) r = 0" using k(2) by (simp add: jsRem_def)
qed

lemma isRebalanceDay_iff:
  "isRebalanceDay interval i \<longleftrightarrow> 0 < interval \<and> (\<exists>k::nat. 0 < k \<and> real i = real k * interval)"
proof (cases "0 < interval \<and> 0 < i")
  case True
  then show ?thesis using jsRem_zero_iff[of interval i] by (simp add: isRebalanceDay_def)
next
  case False
  have "\<not> (\<exists>k::nat. 0 < k \<and> real i = real k * interval)" if "0 < interval" "i = 0"
    using that by simp
  then show ?thesis using False by (auto simp: isRebalanceDay_def)
qed

lemma countCrossChainHops_card:
  assumes "states \<noteq> []"
  shows "countCrossChainHops states = real (card (set (map protocol states))) - 1"
proof -
  have "length (remdups (map protocol states)) = card (set (map protocol states))"
    by (simp add: length_remdups_card_conv)
  moreover have "0 < card (set (map protocol states))"
    using assms by (simp add: card_gt_0_iff)
  ultimately show ?thesis by (simp add: countCrossChainHops_def max_def of_nat_diff)
qed

lemma map_protocol_applyGrowth:
  "map protocol (map (applyGrowth i d days) states) = map protocol states"
  by (simp add: applyGrowth_fields o_def)

lemma map_percentage_applyGrowth:
  "map percentage (map (applyGrowth i d days) states) = map percentage states"
  by (simp add: applyGrowth_fields o_def)

lemma dayStep_percentage:
  "map percentage (allocStates (dayStep days interval fee st i)) = map percentage (allocStates st)"
  by (simp add: dayStep_allocStates Let_def applyGrowth_fields redistribute_fields o_def)

lemma dayStep_protocol:
  "map protocol (allocStates (dayStep days interval fee st i)) = map protocol (allocStates st)"
  by (simp add: dayStep_allocStates Let_def applyGrowth_fields redistribute_fields o_def)

lemma initialStates_percentage:
  "map percentage (initialStates dto cache) = map a_percentage (allocations dto)"
  by (simp add: initialStates_def initAllocState_def o_def)

lemma initialStates_protocol:
  "map protocol (initialStates dto cache) = map a_protocol (allocations dto)"
  by (simp add: initialStates_def initAllocState_def o_def)

lemma dayLoop_percentage:
  "map percentage (allocStates (dayLoop dto days cache n)) = map a_percentage (allocations dto)"
  by (induction n) (simp_all add: dayLoop_0 dayLoop_Suc initLoop_def initialStates_percentage dayStep_percentage)

lemma dayLoop_protocol:
  "map protocol (allocStates (dayLoop dto days cache n)) = map a_protocol (allocations dto)"
  by (induction n) (simp_all add: dayLoop_0 dayLoop_Suc initLoop_def initialStates_protocol dayStep_protocol)


text \<open>
  C3. A day is a rebalance day exactly when the interval is positive and the day index is a
  nonzero multiple of it. On such a day one fee, \<open>xcmFeeUsd\<close> times the number of distinct
  protocols less one, is taken from the sum of the values, and every allocation is set to
  the remainder times its percentage / 100; the percentages are those of the request. On
  any other day nothing is charged and the grown values stand.
\<close>

theorem rebalance_rule:
  "(isRebalanceDay (optInterval dto) n \<longleftrightarrow>
      0 < optInterval dto \<and> (\<exists>k::nat. 0 < k \<and> real n = real k * optInterval dto))
   \<and> (allocations dto \<noteq> [] \<longrightarrow>
       (let st = dayLoop dto days cache n;
            grown = map (applyGrowth n (days ! n) days) (allocStates st);
            feeN = optFee dto * (real (card (set (map a_protocol (allocations dto)))) - 1);
            st' = dayLoop dto days cache (Suc n)
        in map percentage grown = map a_percentage (allocations dto)
           \<and> (if isRebalanceDay (optInterval dto) n
               then allocStates st' =
                      map (\<lambda>s. s\<lparr>valueUsd := (sum_list (map valueUsd grown) - feeN) * (percentage s / 100)\<rparr>)
                        grown
                    \<and> xcmFeesPaidUsd st' = xcmFeesPaidUsd st + feeN
                    \<and> rebalanceCount st' = rebalanceCount st + 1
               else allocStates st' = grown
                    \<and> xcmFeesPaidUsd st' = xcmFeesPaidUsd st
                    \<and> rebalanceCount st' = rebalanceCount st)))"
proof (intro conjI impI)
  show "isRebalanceDay (optInterval dto) n \<longleftrightarrow>
      0 < optInterval dto \<and> (\<exists>k::nat. 0 < k \<and> real n = real k * optInterval dto)"
    by (rule isRebalanceDay_iff)
next
  assume ne: "allocations dto \<noteq> []"
  let ?st = "dayLoop dto days cache n"
  let ?grown = "map (applyGrowth n (days ! n) days) (allocStates ?st)"
  have pr: "map protocol ?grown = map a_protocol (allocations dto)"
    by (simp only: map_protocol_applyGrowth dayLoop_protocol)
  then have "length ?grown = length (allocations dto)" by (metis length_map)
  then have gne: "?grown \<noteq> []" using ne by auto
  have hops: "countCrossChainHops ?grown = real (card (set (map a_protocol (allocations dto)))) - 1"
    using countCrossChainHops_card[OF gne] unfolding pr .
  have pc: "map percentage ?grown = map a_percentage (allocations dto)"
    by (simp only: map_percentage_applyGrowth dayLoop_percentage)
  show "(let st = dayLoop dto days cache n;
            grown = map (applyGrowth n (days ! n) days) (allocStates st);
            feeN = optFee dto * (real (card (set (map a_protocol (allocations dto)))) - 1);
            st' = dayLoop dto days cache (Suc n)
        in map percentage grown = map a_percentage (allocations dto)
           \<and> (if isRebalanceDay (optInterval dto) n
               then allocStates st' =
                      map (\<lambda>s. s\<lparr>valueUsd := (sum_list (map valueUsd grown) - feeN) * (percentage s / 100)\<rparr>)
                        grown
                    \<and> xcmFeesPaidUsd st' = xcmFeesPaidUsd st + feeN
                    \<and> rebalanceCount st' = rebalanceCount st + 1
               else allocStates st' = grown
                    \<and> xcmFeesPaidUsd st' = xcmFeesPaidUsd st
                    \<and> rebalanceCount st' = rebalanceCount st))"
    unfolding Let_def dayLoop_Suc dayStep_fees
    using hops pc
    by (simp add: dayStep_allocStates Let_def sumValues_sum_list redistribute_def)
qed

lemma example_hops:
  "card (set (map a_protocol
     [\<lparr>a_protocol = ''bifrost'', a_assetSymbol = ''vDOT'', a_percentage = 60, a_poolType = None\<rparr>,
      \<lparr>a_protocol = ''hydration'', a_assetSymbol = ''HOLLAR'', a_percentage = 40, a_poolType = None\<rparr>])) = 2"
  by simp

theorem rebalance_rule_witness:
  "allocations
     \<lparr>initialAmountUsd = 1000, dto_from = ''2024-01-01'', dto_to = ''2024-01-02'',
      allocations =
        [\<lparr>a_protocol = ''bifrost'', a_assetSymbol = ''vDOT'', a_percentage = 60, a_poolType = None\<rparr>,
         \<lparr>a_protocol = ''hydration'', a_assetSymbol = ''HOLLAR'', a_percentage = 40, a_poolType = None\<rparr>],
      rebalanceIntervalDays = Some 1, includeIL = None, xcmFeeUsd = None\<rparr> \<noteq> []
   \<and> isRebalanceDay 1 (Suc 0)
   \<and> map valueUsd (allocStates (dayLoop
     \<lparr>initialAmountUsd = 1000, dto_from = ''2024-01-01'', dto_to = ''2024-01-02'',
      allocations =
        [\<lparr>a_protocol = ''bifrost'', a_assetSymbol = ''vDOT'', a_percentage = 60, a_poolType = None\<rparr>,
         \<lparr>a_protocol = ''hydration'', a_assetSymbol = ''HOLLAR'', a_percentage = 40, a_poolType = None\<rparr>],
      rebalanceIntervalDays = Some 1, includeIL = None, xcmFeeUsd = None\<rparr>
     [''2024-01-01'', ''2024-01-02''] [] (Suc (Suc 0)))) = [5997 / 10, 3998 / 10]
   \<and> xcmFeesPaidUsd (dayLoop
     \<lparr>initialAmountUsd = 1000, dto_from = ''2024-01-01'', dto_to = ''2024-01-02'',
      allocations =
        [\<lparr>a_protocol = ''bifrost'', a_assetSymbol = ''vDOT'', a_percentage = 60, a_poolType = None\<rparr>,
         \<lparr>a_protocol = ''hydration'', a_assetSymbol = ''HOLLAR'', a_percentage = 40, a_poolType = None\<rparr>],
      rebalanceIntervalDays = Some 1, includeIL = None, xcmFeeUsd = None\<rparr>
     [''2024-01-01'', ''2024-01-02''] [] (Suc (Suc 0))) = 1 / 2"
  using rebalance_rule[of
     "\<lparr>initialAmountUsd = 1000, dto_from = ''2024-01-01'', dto_to = ''2024-01-02'',
      allocations =
        [\<lparr>a_protocol = ''bifrost'', a_assetSymbol = ''vDOT'', a_percentage = 60, a_poolType = None\<rparr>,
         \<lparr>a_protocol = ''hydration'', a_assetSymbol = ''HOLLAR'', a_percentage = 40, a_poolType = None\<rparr>],
      rebalanceIntervalDays = Some 1, includeIL = None, xcmFeeUsd = None\<rparr>"
     "Suc 0" "[''2024-01-01'', ''2024-01-02'']" "[]"]
  unfolding example_hops
  by (simp add: Let_def optInterval_def optFee_def isRebalanceDay_def jsRem_def
        dayLoop_Suc dayLoop_0 initLoop_def initialStates_def initAllocState_def matchRecords_def
        buildApyMap_def dayStep_def applyGrowth_def getApyForDay_def sumValues_def
        countCrossChainHops_def redistribute_def)

subsection \<open>The recorded time series\<close>


lemma dayLoop_timeSeries_dates:
  "map date (timeSeries (dayLoop dto days cache n)) = map (\<lambda>i. days ! i) [0..<n]"
  by (induction n) (simp_all add: dayLoop_0 dayLoop_Suc initLoop_def dayStep_timeSeries)

lemma dayLoop_timeSeries_length:
  "length (timeSeries (dayLoop dto days cache n)) = n"
  using arg_cong[OF dayLoop_timeSeries_dates[of dto days cache n], of length] by simp

lemma dayLoop_timeSeries_nth:
  "i < n \<Longrightarrow> timeSeries (dayLoop dto days cache n) ! i =
     \<lparr>date = days ! i,
      totalValueUsd = toFixed4 (prevTotalValue (dayLoop dto days cache (Suc i))),
      dailyReturnPct = toFixed4
        (if i = 0 then 0
         else ((prevTotalValue (dayLoop dto days cache (Suc i)) - prevTotalValue (dayLoop dto days cache i))
                 / prevTotalValue (dayLoop dto days cache i)) * 100)\<rparr>"
proof (induction n)
  case 0
  then show ?case by simp
next
  case (Suc n)
  show ?case
  proof (cases "i < n")
    case True
    then show ?thesis
      using Suc.IH by (simp add: dayLoop_Suc[of dto days cache n] dayStep_timeSeries nth_append dayLoop_timeSeries_length)
  next
    case False
    then have "i = n" using Suc.prems by simp
    then show ?thesis
      by (simp add: dayLoop_Suc[of dto days cache n] dayStep_timeSeries nth_append dayLoop_timeSeries_length
            dayStep_prevTotalValue)
  qed
qed

subsection \<open>The Sharpe ratio\<close>

lemma pow2_powr: "pow2 e = 2 powr (of_int e)"
  by (simp add: pow2_def powr_int)

lemma pow2_pos: "0 < pow2 e"
  by (simp add: pow2_def)

lemma fl64_at:
  assumes "pow2 e \<le> \<bar>x\<bar>" "\<bar>x\<bar> < pow2 (e + 1)"
  shows "fl64 x = of_int (roundEven (x / pow2 (e - 52))) * pow2 (e - 52)"
proof -
  have p: "0 < \<bar>x\<bar>" using assms(1) pow2_pos[of e] by linarith
  then have nz: "x \<noteq> 0" by simp
  have "\<lfloor>log 2 \<bar>x\<bar>\<rfloor> = e"
    using assms p by (simp add: floor_log_eq_powr_iff pow2_powr)
  then show ?thesis using nz by (simp add: fl64_def Let_def)
qed

lemma roundEven_near:
  assumes "\<bar>q - of_int n\<bar> < 1 / 2"
  shows "roundEven q = n"
proof (cases "of_int n \<le> q")
  case True
  then have f: "\<lfloor>q\<rfloor> = n" using assms by linarith
  have "q - of_int n < 1 / 2" using assms by linarith
  then show ?thesis by (simp add: roundEven_def Let_def f)
next
  case False
  then have f: "\<lfloor>q\<rfloor> = n - 1" using assms by linarith
  have "1 / 2 < q - of_int (n - 1)" using assms False by (simp; linarith)
  then show ?thesis by (simp add: roundEven_def Let_def f)
qed

lemma fl64_value:
  assumes "pow2 e \<le> \<bar>x\<bar>" "\<bar>x\<bar> < pow2 (e + 1)"
      and "of_int (roundEven (x / pow2 (e - 52))) * pow2 (e - 52) = y"
  shows "fl64 x = y"
  using fl64_at[OF assms(1,2)] assms(3) by simp

lemma fl64_sqrt_value:
  assumes n: "2 ^ 52 < n" "n < 2 ^ 53"
      and lo: "((of_int n - 1 / 2) * pow2 k)\<^sup>2 < v"
      and hi: "v < ((of_int n + 1 / 2) * pow2 k)\<^sup>2"
  shows "fl64 (sqrt v) = of_int n * pow2 k"
proof -
  have u: "0 < pow2 k" by (rule pow2_pos)
  have npos: "(0::real) < of_int n - 1 / 2" using n(1) by simp
  have a: "0 \<le> (of_int n - 1 / 2) * pow2 k" using npos u by simp
  have b: "0 \<le> (of_int n + 1 / 2) * pow2 k" using npos u by simp
  have l: "(of_int n - 1 / 2) * pow2 k < sqrt v"
    using lo a by (metis real_sqrt_less_iff real_sqrt_abs abs_of_nonneg)
  have h: "sqrt v < (of_int n + 1 / 2) * pow2 k"
    using hi b by (metis real_sqrt_less_iff real_sqrt_abs abs_of_nonneg)
  have sp: "0 < sqrt v" using l a by linarith
  have p: "pow2 (k + 52) = 2 ^ 52 * pow2 k" "pow2 (k + 52 + 1) = 2 ^ 53 * pow2 k"
    by (simp_all add: pow2_powr powr_add powr_realpow[symmetric])
  have "(2::real) ^ 52 \<le> of_int n - 1 / 2" using n(1) by (simp; linarith)
  then have "2 ^ 52 * pow2 k \<le> (of_int n - 1 / 2) * pow2 k" using u by simp
  then have e1: "pow2 (k + 52) \<le> \<bar>sqrt v\<bar>" using l sp p(1) by simp
  have "of_int n + 1 / 2 \<le> (2::real) ^ 53" using n(2) by (simp; linarith)
  then have "(of_int n + 1 / 2) * pow2 k \<le> 2 ^ 53 * pow2 k" using u by simp
  then have e2: "\<bar>sqrt v\<bar> < pow2 (k + 52 + 1)" using h sp p(2) by simp
  have q1: "of_int n - 1 / 2 < sqrt v / pow2 k" using l u by (simp add: pos_less_divide_eq)
  have q2: "sqrt v / pow2 k < of_int n + 1 / 2" using h u by (simp add: pos_divide_less_eq)
  have "\<bar>sqrt v / pow2 k - of_int n\<bar> < 1 / 2" using q1 q2 by linarith
  then have r: "roundEven (sqrt v / pow2 k) = n" by (rule roundEven_near)
  show ?thesis using fl64_at[OF e1 e2] r by simp
qed

lemma calcSharpe_equal_returns:
  "calcSharpe [6308786473208667 / 18446744073709551616,
               6308786473208667 / 18446744073709551616,
               6308786473208667 / 18446744073709551616,
               6308786473208667 / 18446744073709551616,
               6308786473208667 / 18446744073709551616,
               6308786473208667 / 18446744073709551616,
               6308786473208667 / 18446744073709551616] = 66892224811826984"
proof -
  have r0: "fl64 (1 / 20) = 3602879701896397 / 72057594037927936"
    by (rule fl64_value[where e = "-5"]) (simp_all add: pow2_def roundEven_def Let_def)
  have r1: "fl64 (3602879701896397 / 26301021823843696640) = 5053902485947823 / 36893488147419103232"
    by (rule fl64_value[where e = "-13"]) (simp_all add: pow2_def roundEven_def Let_def)
  have a1: "fl64 (6308786473208667 / 18446744073709551616) = 6308786473208667 / 18446744073709551616"
    by (rule fl64_value[where e = "-12"]) (simp_all add: pow2_def roundEven_def Let_def)
  have a2: "fl64 (6308786473208667 / 9223372036854775808) = 6308786473208667 / 9223372036854775808"
    by (rule fl64_value[where e = "-11"]) (simp_all add: pow2_def roundEven_def Let_def)
  have a3: "fl64 (18926359419626001 / 18446744073709551616) = 1182897463726625 / 1152921504606846976"
    by (rule fl64_value[where e = "-10"]) (simp_all add: pow2_def roundEven_def Let_def)
  have a4: "fl64 (25235145892834667 / 18446744073709551616) = 6308786473208667 / 4611686018427387904"
    by (rule fl64_value[where e = "-10"]) (simp_all add: pow2_def roundEven_def Let_def)
  have a5: "fl64 (31543932366043335 / 18446744073709551616) = 3942991545755417 / 2305843009213693952"
    by (rule fl64_value[where e = "-10"]) (simp_all add: pow2_def roundEven_def Let_def)
  have a6: "fl64 (37852718839252003 / 18446744073709551616) = 1182897463726625 / 576460752303423488"
    by (rule fl64_value[where e = "-9"]) (simp_all add: pow2_def roundEven_def Let_def)
  have a7: "fl64 (44161505312460667 / 18446744073709551616) = 5520188164057583 / 2305843009213693952"
    by (rule fl64_value[where e = "-9"]) (simp_all add: pow2_def roundEven_def Let_def)
  have m: "fl64 (5520188164057583 / 16140901064495857664) = 3154393236604333 / 9223372036854775808"
    by (rule fl64_value[where e = "-12"]) (simp_all add: pow2_def roundEven_def Let_def)
  have df: "fl64 (1 / 18446744073709551616) = 1 / 18446744073709551616"
    by (rule fl64_value[where e = "-64"]) (simp_all add: pow2_def roundEven_def Let_def)
  have sq: "fl64 (1 / 340282366920938463463374607431768211456) = 1 / 340282366920938463463374607431768211456"
    by (rule fl64_value[where e = "-128"]) (simp_all add: pow2_def roundEven_def Let_def)
  have b2: "fl64 (1 / 170141183460469231731687303715884105728) = 1 / 170141183460469231731687303715884105728"
    by (rule fl64_value[where e = "-127"]) (simp_all add: pow2_def roundEven_def Let_def)
  have b3: "fl64 (3 / 340282366920938463463374607431768211456) = 3 / 340282366920938463463374607431768211456"
    by (rule fl64_value[where e = "-127"]) (simp_all add: pow2_def roundEven_def Let_def)
  have b4: "fl64 (1 / 85070591730234615865843651857942052864) = 1 / 85070591730234615865843651857942052864"
    by (rule fl64_value[where e = "-126"]) (simp_all add: pow2_def roundEven_def Let_def)
  have b5: "fl64 (5 / 340282366920938463463374607431768211456) = 5 / 340282366920938463463374607431768211456"
    by (rule fl64_value[where e = "-126"]) (simp_all add: pow2_def roundEven_def Let_def)
  have b6: "fl64 (3 / 170141183460469231731687303715884105728) = 3 / 170141183460469231731687303715884105728"
    by (rule fl64_value[where e = "-126"]) (simp_all add: pow2_def roundEven_def Let_def)
  have b7: "fl64 (7 / 340282366920938463463374607431768211456) = 7 / 340282366920938463463374607431768211456"
    by (rule fl64_value[where e = "-126"]) (simp_all add: pow2_def roundEven_def Let_def)
  have va: "fl64 (7 / 2041694201525630780780247644590609268736) = 5254199565265579 / 1532495540865888858358347027150309183618739122183602176"
    by (rule fl64_value[where e = "-128"]) (simp_all add: pow2_def roundEven_def Let_def)
  have sd: "fl64 (sqrt (5254199565265579 / 1532495540865888858358347027150309183618739122183602176)) = 4864443565739075 / 83076749736557242056487941267521536"
  proof -
    have "fl64 (sqrt (5254199565265579 / 1532495540865888858358347027150309183618739122183602176)) = of_int 4864443565739075 * pow2 (-116)"
      by (rule fl64_sqrt_value) (simp_all add: pow2_def power2_eq_square)
    then show ?thesis by (simp add: pow2_def)
  qed
  have nu: "fl64 (7563670460469509 / 36893488147419103232) = 7563670460469509 / 36893488147419103232"
    by (rule fl64_value[where e = "-13"]) (simp_all add: pow2_def roundEven_def Let_def)
  have qu: "fl64 (17031871733661854314097627103232 / 4864443565739075) = 3501299070179290"
    by (rule fl64_value[where e = "51"]) (simp_all add: pow2_def roundEven_def Let_def)
  have s365: "fl64 (sqrt (365)) = 2688785939681071 / 140737488355328"
  proof -
    have "fl64 (sqrt (365)) = of_int 5377571879362142 * pow2 (-48)"
      by (rule fl64_sqrt_value) (simp_all add: pow2_def power2_eq_square)
    then show ?thesis by (simp add: pow2_def)
  qed
  have re: "fl64 (4707121855258241210014694609795 / 70368744177664) = 66892224811826984"
    by (rule fl64_value[where e = "55"]) (simp_all add: pow2_def roundEven_def Let_def)
  have S: "foldl (\<lambda>s r. fl64 (s + r)) 0 [6308786473208667 / 18446744073709551616, 6308786473208667 / 18446744073709551616, 6308786473208667 / 18446744073709551616, 6308786473208667 / 18446744073709551616, 6308786473208667 / 18446744073709551616, 6308786473208667 / 18446744073709551616, 6308786473208667 / 18446744073709551616] = 5520188164057583 / 2305843009213693952"
    by (simp add: a1 a2 a3 a4 a5 a6 a7)
  have M: "fl64 (foldl (\<lambda>s r. fl64 (s + r)) 0 [6308786473208667 / 18446744073709551616, 6308786473208667 / 18446744073709551616, 6308786473208667 / 18446744073709551616, 6308786473208667 / 18446744073709551616, 6308786473208667 / 18446744073709551616, 6308786473208667 / 18446744073709551616, 6308786473208667 / 18446744073709551616] / real (length [6308786473208667 / 18446744073709551616, 6308786473208667 / 18446744073709551616, 6308786473208667 / 18446744073709551616, 6308786473208667 / 18446744073709551616, 6308786473208667 / 18446744073709551616, 6308786473208667 / 18446744073709551616, 6308786473208667 / 18446744073709551616])) = 3154393236604333 / 9223372036854775808"
    unfolding S by (simp add: m)
  have Q: "fl64 ((fl64 (6308786473208667 / 18446744073709551616 - 3154393236604333 / 9223372036854775808))\<^sup>2) = 1 / 340282366920938463463374607431768211456"
  proof -
    have D: "fl64 (6308786473208667 / 18446744073709551616 - 3154393236604333 / 9223372036854775808) = 1 / 18446744073709551616" by (simp add: df)
    show ?thesis unfolding D by (simp add: power2_eq_square sq)
  qed
  have V: "foldl (\<lambda>s r. fl64 (s + fl64 ((fl64 (r - 3154393236604333 / 9223372036854775808))\<^sup>2))) 0 [6308786473208667 / 18446744073709551616, 6308786473208667 / 18446744073709551616, 6308786473208667 / 18446744073709551616, 6308786473208667 / 18446744073709551616, 6308786473208667 / 18446744073709551616, 6308786473208667 / 18446744073709551616, 6308786473208667 / 18446744073709551616] = 7 / 340282366920938463463374607431768211456"
    unfolding foldl.simps Q by (simp add: sq b2 b3 b4 b5 b6 b7)
  have W: "fl64 (foldl (\<lambda>s r. fl64 (s + fl64 ((fl64 (r - 3154393236604333 / 9223372036854775808))\<^sup>2))) 0 [6308786473208667 / 18446744073709551616, 6308786473208667 / 18446744073709551616, 6308786473208667 / 18446744073709551616, 6308786473208667 / 18446744073709551616, 6308786473208667 / 18446744073709551616, 6308786473208667 / 18446744073709551616, 6308786473208667 / 18446744073709551616] / (real (length [6308786473208667 / 18446744073709551616, 6308786473208667 / 18446744073709551616, 6308786473208667 / 18446744073709551616, 6308786473208667 / 18446744073709551616, 6308786473208667 / 18446744073709551616, 6308786473208667 / 18446744073709551616, 6308786473208667 / 18446744073709551616]) - 1)) = 5254199565265579 / 1532495540865888858358347027150309183618739122183602176"
    unfolding V by (simp add: va)
  have R: "fl64 (RISK_FREE_RATE / 365) = 5053902485947823 / 36893488147419103232"
    by (simp add: RISK_FREE_RATE_def r0 r1)
  have N: "fl64 (3154393236604333 / 9223372036854775808 - 5053902485947823 / 36893488147419103232) = 7563670460469509 / 36893488147419103232"
    by (simp add: nu)
  have U: "fl64 (7563670460469509 / 36893488147419103232 / (4864443565739075 / 83076749736557242056487941267521536)) = 3501299070179290"
    by (simp add: qu)
  have E: "fl64 (3501299070179290 * (2688785939681071 / 140737488355328)) = 66892224811826984"
    by (simp add: re)
  have len: "\<not> length [6308786473208667 / 18446744073709551616, 6308786473208667 / 18446744073709551616, 6308786473208667 / 18446744073709551616, 6308786473208667 / 18446744073709551616, 6308786473208667 / 18446744073709551616, 6308786473208667 / 18446744073709551616, 6308786473208667 / 18446744073709551616] < 2" by simp
  have nz: "(4864443565739075 / 83076749736557242056487941267521536) \<noteq> (0::real)" by simp
  show ?thesis
    unfolding calcSharpe_def Let_def R M W sd N U s365 E if_not_P[OF len] if_not_P[OF nz] ..
qed

lemma recorded_return_double:
  "fl64 (fl64 (171 / 5000) / 100) = 6308786473208667 / 18446744073709551616"
proof -
  have a: "fl64 (171 / 5000) = 4928739432194271 / 144115188075855872"
    by (rule fl64_value[where e = "-5"]) (simp_all add: pow2_def roundEven_def Let_def)
  have b: "fl64 (4928739432194271 / 14411518807585587200) = 6308786473208667 / 18446744073709551616"
    by (rule fl64_value[where e = "-12"]) (simp_all add: pow2_def roundEven_def Let_def)
  show ?thesis unfolding a using b by simp
qed

lemma calcSharpe_short: "length dailyReturns < 2 \<Longrightarrow> calcSharpe dailyReturns = 0"
  by (simp add: calcSharpe_def)

lemma simulate_sharpeRatio:
  "s_sharpeRatio (summary (simulate dto days cache)) =
     toFixed4 (calcSharpe (map (\<lambda>t. fl64 (fl64 (dailyReturnPct t) / 100))
                 (drop 1 (timeSeries (dayLoop dto days cache (length days))))))"
  by (simp add: simulate_def Let_def)

lemma example_returns:
  "map dailyReturnPct (timeSeries (dayLoop
      \<lparr>initialAmountUsd = 10000, dto_from = ''2024-01-01'', dto_to = ''2024-01-08'',
       allocations =
         [\<lparr>a_protocol = ''bifrost'', a_assetSymbol = ''vDOT'', a_percentage = 100, a_poolType = None\<rparr>],
       rebalanceIntervalDays = None, includeIL = None, xcmFeeUsd = None\<rparr>
      [''2024-01-01'', ''2024-01-02'', ''2024-01-03'', ''2024-01-04'', ''2024-01-05'', ''2024-01-06'',
       ''2024-01-07'', ''2024-01-08'']
      [(''bifrost'', [\<lparr>r_assetSymbol = ''vDOT'', dataTimestamp = ''2024-01-01T00:00:00.000Z'',
                       totalApy = Some (25 / 2), supplyApy = None, rewardApy = None\<rparr>])]
      8)) = [0, 171 / 5000, 171 / 5000, 171 / 5000, 171 / 5000, 171 / 5000, 171 / 5000, 171 / 5000]"
  by (simp add: Let_def optInterval_def optFee_def optIL_def isRebalanceDay_def jsRem_def
        dayLoop_def runDays_def upt_rec initLoop_def initialStates_def initAllocState_def
        matchRecords_def buildApyMap_def recordApy_def dayStep_def applyGrowth_def
        getApyForDay_def sumValues_def countCrossChainHops_def redistribute_def toFixed4_def
        toLowerCase_def toLowerChar_def)

text \<open>
  C5. The Sharpe ratio is meant to be 0 when the sample standard deviation of the daily
  returns is 0. A run of eight days on one pool with a constant yield of 12.5% records the
  same daily return, 0.0342 percent, on each of the seven days after day 0:
  \<open>calcSharpe\<close> is given seven times the double \<open>0.0342 / 100\<close>, and their deviation
  is 0. In doubles their mean is one unit in the last place below them, every squared
  difference is \<open>2^-128\<close>, the rounded deviation is about \<open>5.9e-20\<close> and not 0: the
  test \<open>stdDev === 0\<close> is false and the summary reports a Sharpe ratio of
  66892224811826984.
\<close>

theorem sharpe_constant_yield:
  "map dailyReturnPct (timeSeries (dayLoop
      \<lparr>initialAmountUsd = 10000, dto_from = ''2024-01-01'', dto_to = ''2024-01-08'',
       allocations =
         [\<lparr>a_protocol = ''bifrost'', a_assetSymbol = ''vDOT'', a_percentage = 100, a_poolType = None\<rparr>],
       rebalanceIntervalDays = None, includeIL = None, xcmFeeUsd = None\<rparr>
      [''2024-01-01'', ''2024-01-02'', ''2024-01-03'', ''2024-01-04'', ''2024-01-05'', ''2024-01-06'',
       ''2024-01-07'', ''2024-01-08'']
      [(''bifrost'', [\<lparr>r_assetSymbol = ''vDOT'', dataTimestamp = ''2024-01-01T00:00:00.000Z'',
                       totalApy = Some (25 / 2), supplyApy = None, rewardApy = None\<rparr>])]
      8)) = [0, 171 / 5000, 171 / 5000, 171 / 5000, 171 / 5000, 171 / 5000, 171 / 5000, 171 / 5000]
   \<and> fl64 (fl64 (171 / 5000) / 100) = 6308786473208667 / 18446744073709551616
   \<and> calcSharpe (replicate 7 (6308786473208667 / 18446744073709551616)) = 66892224811826984
   \<and> s_sharpeRatio (summary (simulate
      \<lparr>initialAmountUsd = 10000, dto_from = ''2024-01-01'', dto_to = ''2024-01-08'',
       allocations =
         [\<lparr>a_protocol = ''bifrost'', a_assetSymbol = ''vDOT'', a_percentage = 100, a_poolType = None\<rparr>],
       rebalanceIntervalDays = None, includeIL = None, xcmFeeUsd = None\<rparr>
      [''2024-01-01'', ''2024-01-02'', ''2024-01-03'', ''2024-01-04'', ''2024-01-05'', ''2024-01-06'',
       ''2024-01-07'', ''2024-01-08'']
      [(''bifrost'', [\<lparr>r_assetSymbol = ''vDOT'', dataTimestamp = ''2024-01-01T00:00:00.000Z'',
                       totalApy = Some (25 / 2), supplyApy = None, rewardApy = None\<rparr>])])) = 66892224811826984"
proof -
  let ?ts = "timeSeries (dayLoop
      \<lparr>initialAmountUsd = 10000, dto_from = ''2024-01-01'', dto_to = ''2024-01-08'',
       allocations =
         [\<lparr>a_protocol = ''bifrost'', a_assetSymbol = ''vDOT'', a_percentage = 100, a_poolType = None\<rparr>],
       rebalanceIntervalDays = None, includeIL = None, xcmFeeUsd = None\<rparr>
      [''2024-01-01'', ''2024-01-02'', ''2024-01-03'', ''2024-01-04'', ''2024-01-05'', ''2024-01-06'',
       ''2024-01-07'', ''2024-01-08'']
      [(''bifrost'', [\<lparr>r_assetSymbol = ''vDOT'', dataTimestamp = ''2024-01-01T00:00:00.000Z'',
                       totalApy = Some (25 / 2), supplyApy = None, rewardApy = None\<rparr>])]
      8)"
  have c: "calcSharpe (replicate 7 (6308786473208667 / 18446744073709551616)) = 66892224811826984"
    using calcSharpe_equal_returns by (simp add: numeral_eq_Suc)
  have "map (\<lambda>t. fl64 (fl64 (dailyReturnPct t) / 100)) (drop 1 ?ts)
          = map (\<lambda>x. fl64 (fl64 x / 100)) (drop 1 (map dailyReturnPct ?ts))"
    by (simp add: drop_map)
  also have "\<dots> = replicate 7 (6308786473208667 / 18446744073709551616)"
    unfolding example_returns by (simp add: recorded_return_double numeral_eq_Suc)
  finally have r: "map (\<lambda>t. fl64 (fl64 (dailyReturnPct t) / 100)) (drop 1 ?ts)
                     = replicate 7 (6308786473208667 / 18446744073709551616)" .
  have t: "toFixed4 66892224811826984 = 66892224811826984"
    by (simp add: toFixed4_def)
  have l: "length [''2024-01-01'', ''2024-01-02'', ''2024-01-03'', ''2024-01-04'', ''2024-01-05'', ''2024-01-06'',
       ''2024-01-07'', ''2024-01-08''] = 8"
    by simp
  have s: "s_sharpeRatio (summary (simulate
      \<lparr>initialAmountUsd = 10000, dto_from = ''2024-01-01'', dto_to = ''2024-01-08'',
       allocations =
         [\<lparr>a_protocol = ''bifrost'', a_assetSymbol = ''vDOT'', a_percentage = 100, a_poolType = None\<rparr>],
       rebalanceIntervalDays = None, includeIL = None, xcmFeeUsd = None\<rparr>
      [''2024-01-01'', ''2024-01-02'', ''2024-01-03'', ''2024-01-04'', ''2024-01-05'', ''2024-01-06'',
       ''2024-01-07'', ''2024-01-08'']
      [(''bifrost'', [\<lparr>r_assetSymbol = ''vDOT'', dataTimestamp = ''2024-01-01T00:00:00.000Z'',
                       totalApy = Some (25 / 2), supplyApy = None, rewardApy = None\<rparr>])])) = 66892224811826984"
    unfolding simulate_sharpeRatio l r c t ..
  show ?thesis using example_returns recorded_return_double c s by (intro conjI)
qed

subsection \<open>The returned time series\<close>

lemma ceil_div_mult_ge:
  assumes "0 < (m::nat)"
  shows "n \<le> ((n + m - 1) div m) * m"
proof -
  have "n + m - 1 = ((n + m - 1) div m) * m + (n + m - 1) mod m" by simp
  moreover have "(n + m - 1) mod m < m" using assms by simp
  ultimately have "n + m - 1 < ((n + m - 1) div m) * m + m" by linarith
  then show ?thesis using assms by linarith
qed

lemma downsample_bound:
  assumes "0 < maxPoints"
  shows "length (downsampleTimeSeries series maxPoints) \<le> maxPoints + 1"
proof (cases "length series \<le> maxPoints")
  case True
  then show ?thesis by (simp add: downsample_short)
next
  case False
  let ?n = "length series"
  let ?step = "(?n + maxPoints - 1) div maxPoints"
  let ?c = "(?n + ?step - 1) div ?step"
  have lt: "maxPoints < ?n" using False by simp
  have n: "?n \<le> ?step * maxPoints" by (rule ceil_div_mult_ge[OF assms])
  have "maxPoints \<le> ?n + maxPoints - 1" using lt by simp
  then have st: "0 < ?step" using assms by (simp only: div_greater_zero_iff)
  have "?n + ?step - 1 < (maxPoints + 1) * ?step" using n st by (simp add: mult.commute)
  then have "?c < maxPoints + 1" by (rule less_mult_imp_div_less)
  then have c: "?c \<le> maxPoints" by simp
  have "length (downsampleTimeSeries series maxPoints) \<le> ?c + 1"
    unfolding downsample_length[OF assms lt] Let_def by simp
  then show ?thesis using c by linarith
qed

lemma strideIndices_nonempty: "0 < step \<Longrightarrow> 0 < n \<Longrightarrow> strideIndices n step 0 \<noteq> []"
  by (subst strideIndices.simps) simp

lemma downsample_last:
  assumes "series \<noteq> []" "0 < maxPoints"
  shows "last (downsampleTimeSeries series maxPoints) = last series"
proof (cases "length series \<le> maxPoints")
  case True
  then show ?thesis by (simp add: downsample_short)
next
  case False
  let ?n = "length series"
  let ?step = "(?n + maxPoints - 1) div maxPoints"
  let ?idxs = "strideIndices ?n ?step 0"
  have lt: "maxPoints < ?n" using False by simp
  have "maxPoints \<le> ?n + maxPoints - 1" using lt by simp
  then have st: "0 < ?step" using assms(2) by (simp only: div_greater_zero_iff)
  have n: "0 < ?n" using assms(1) by simp
  have ne: "?idxs \<noteq> []" by (rule strideIndices_nonempty[OF st n])
  have l: "last series = series ! (?n - 1)" using assms(1) by (rule last_conv_nth)
  have d: "downsampleTimeSeries series maxPoints =
        (if last ?idxs \<noteq> ?n - 1 then map (\<lambda>i. series ! i) ?idxs @ [series ! (?n - 1)]
         else map (\<lambda>i. series ! i) ?idxs)"
    using assms(2) False by (simp add: downsampleTimeSeries_def Let_def)
  show ?thesis
  proof (cases "last ?idxs \<noteq> ?n - 1")
    case True
    then show ?thesis unfolding d l by simp
  next
    case False
    then have "last (map (\<lambda>i. series ! i) ?idxs) = series ! (?n - 1)"
      using ne by (simp add: last_map)
    then show ?thesis unfolding d l using False by simp
  qed
qed

lemma downsample_hd:
  assumes "series \<noteq> []" "0 < maxPoints"
  shows "hd (downsampleTimeSeries series maxPoints) = hd series"
proof (cases "length series \<le> maxPoints")
  case True
  then show ?thesis by (simp add: downsample_short)
next
  case False
  let ?n = "length series"
  let ?step = "(?n + maxPoints - 1) div maxPoints"
  have lt: "maxPoints < ?n" using False by simp
  have "maxPoints \<le> ?n + maxPoints - 1" using lt by simp
  then have st: "0 < ?step" using assms(2) by (simp only: div_greater_zero_iff)
  have n: "0 < ?n" using assms(1) by simp
  have i: "strideIndices ?n ?step 0 = 0 # strideIndices ?n ?step (0 + ?step)"
    using st n by (subst strideIndices.simps) simp
  show ?thesis
    using assms False unfolding downsampleTimeSeries_def Let_def i
    by (simp add: hd_conv_nth)
qed

lemma simulate_timeSeries:
  "res_timeSeries (simulate dto days cache) =
     downsampleTimeSeries (timeSeries (dayLoop dto days cache (length days))) 500"
  by (simp add: simulate_def Let_def)

lemma buildDayListFrom_length:
  "s \<le> e \<Longrightarrow> length (buildDayListFrom toIso s e) = nat ((e - s) div 86400000) + 1"
proof (induction toIso s e rule: buildDayListFrom.induct)
  case (1 toIso cursor endT)
  show ?case
  proof (cases "cursor + 86400000 \<le> endT")
    case True
    have "(endT - cursor) div 86400000 = (endT - (cursor + 86400000)) div 86400000 + 1"
      by (simp add: algebra_simps flip: div_add_self1)
    moreover have "0 \<le> (endT - (cursor + 86400000)) div 86400000" using True by simp
    ultimately show ?thesis
      using 1 True by (subst buildDayListFrom.simps) (simp add: nat_add_distrib)
  next
    case False
    then have "(endT - cursor) div 86400000 = 0" using 1(2) by simp
    moreover have "buildDayListFrom toIso (cursor + 86400000) endT = []"
      using False by (subst buildDayListFrom.simps) simp
    ultimately show ?thesis using 1(2) by (subst buildDayListFrom.simps) simp
  qed
qed

lemma simulate_1000_days:
  assumes "length days = 1000"
  shows "length (res_timeSeries (simulate dto days cache)) = 501"
  unfolding simulate_timeSeries
  by (rule downsample_1000_len) (simp add: dayLoop_timeSeries_length assms)

text \<open>
  C10. The returned series is meant to hold at most 500 points. A request from 2022-01-01 to
  2024-09-26 has 1000 day points: the step is 2, the 500 sampled indices end at 998, and
  the last point is appended as point 501.
\<close>

theorem runBacktest_1000_days:
  "(\<exists>r. snd (runBacktest
       \<lparr>parseDate = (\<lambda>s. if s = ''2022-01-01'' then Some 1640995200000
                          else if s = ''2024-09-26'' then Some 1727308800000 else None),
        isoDay = (\<lambda>t. ''day''), fetchPoolHistory = (\<lambda>p f t. FetchThrows),
        isDateString = (\<lambda>s. s = ''2022-01-01'' \<or> s = ''2024-09-26'')\<rparr>
       \<lparr>initialAmountUsd = 1000, dto_from = ''2022-01-01'', dto_to = ''2024-09-26'',
        allocations =
          [\<lparr>a_protocol = ''bifrost'', a_assetSymbol = ''vDOT'', a_percentage = 100, a_poolType = None\<rparr>],
        rebalanceIntervalDays = None, includeIL = None, xcmFeeUsd = None\<rparr>) = Inr r
      \<and> s_durationDays (summary r) = 999
      \<and> length (res_timeSeries r) = 501)"
proof -
  let ?w = "\<lparr>parseDate = (\<lambda>s. if s = ''2022-01-01'' then Some 1640995200000
                          else if s = ''2024-09-26'' then Some 1727308800000 else None),
        isoDay = (\<lambda>t. ''day''), fetchPoolHistory = (\<lambda>p f t. FetchThrows),
        isDateString = (\<lambda>s. s = ''2022-01-01'' \<or> s = ''2024-09-26'')\<rparr>"
  let ?dto = "\<lparr>initialAmountUsd = 1000, dto_from = ''2022-01-01'', dto_to = ''2024-09-26'',
        allocations =
          [\<lparr>a_protocol = ''bifrost'', a_assetSymbol = ''vDOT'', a_percentage = 100, a_poolType = None\<rparr>],
        rebalanceIntervalDays = None, includeIL = None, xcmFeeUsd = None\<rparr>"
  let ?days = "buildDayList (\<lambda>t::int. ''day'') (Some 1640995200000) (Some 1727308800000)"
  have l: "length ?days = 1000"
  proof -
    have "length (buildDayListFrom (\<lambda>t. ''day'') 1640995200000 1727308800000) = 1000"
      using buildDayListFrom_length[of 1640995200000 1727308800000 "\<lambda>t. ''day''"] by simp
    then show ?thesis unfolding buildDayList_def by simp
  qed
  have r: "snd (runBacktest ?w ?dto) =
             Inr (simulate ?dto ?days (fetchAll ?w ?dto (uniqFirst (map a_protocol (allocations ?dto)))))"
    by (simp add: runBacktest_def Let_def dateGe_def)
  have d: "s_durationDays (summary (simulate ?dto ?days cache)) = 999" for cache
    by (simp add: simulate_def Let_def l)
  show ?thesis
    unfolding r using d simulate_1000_days[OF l] by simp
qed

subsection \<open>Validation of the request\<close>

lemma runBacktest_rejects_sum:
  assumes "\<bar>sum_list (map a_percentage (allocations dto)) - 100\<bar> > 1 / 100"
  shows "runBacktest w dto = ([], Inl (AllocationsMustSumTo100 (sum_list (map a_percentage (allocations dto)))))"
proof -
  have t: "foldl (\<lambda>s a. s + a_percentage a) 0 (allocations dto) = sum_list (map a_percentage (allocations dto))"
    by (simp add: foldl_add_sum_list)
  have "sum_list (map a_percentage (allocations dto)) > 10001 / 100
        \<or> sum_list (map a_percentage (allocations dto)) < 9999 / 100"
    using assms by (simp add: abs_if split: if_splits)
  then show ?thesis using assms unfolding runBacktest_def t Let_def by simp
qed

lemma runBacktest_rejects_dates:
  assumes "\<bar>sum_list (map a_percentage (allocations dto)) - 100\<bar> \<le> 1 / 100"
      and "parseDate w (dto_from dto) = Some f" "parseDate w (dto_to dto) = Some t" "\<not> f < t"
  shows "runBacktest w dto = ([], Inl FromMustBeBeforeTo)"
proof -
  have t: "foldl (\<lambda>s a. s + a_percentage a) 0 (allocations dto) = sum_list (map a_percentage (allocations dto))"
    by (simp add: foldl_add_sum_list)
  show ?thesis using assms unfolding runBacktest_def t Let_def by (simp add: dateGe_def)
qed

lemma runBacktest_invalid_date:
  assumes "\<bar>sum_list (map a_percentage (allocations dto)) - 100\<bar> \<le> 1 / 100"
      and "parseDate w (dto_from dto) = None \<or> parseDate w (dto_to dto) = None"
  shows "runBacktest w dto = (uniqFirst (map a_protocol (allocations dto)), Inl InvalidTimeValue)"
proof -
  have t: "foldl (\<lambda>s a. s + a_percentage a) 0 (allocations dto) = sum_list (map a_percentage (allocations dto))"
    by (simp add: foldl_add_sum_list)
  show ?thesis using assms unfolding runBacktest_def t Let_def
    by (auto simp: dateGe_def split: option.splits)
qed

lemma postRun_rejects_amount:
  assumes "initialAmountUsd dto < 1"
  shows "postRun w dto = ([], Inl DtoRejected)"
  using assms by (simp add: postRun_def validRunBacktestDto_def)

text \<open>
  C7. A request whose start date is not before its end date is meant to be rejected before
  any data is fetched. \<open>2024-W02\<close> and \<open>2024-W01\<close> are ISO 8601 week dates:
  \<open>IsDateString\<close> accepts them and \<open>new Date\<close> does not parse them. The request passes
  the pipe, the comparison \<open>fromDate >= toDate\<close> of two invalid dates is false, both
  protocols are fetched, and the run ends in the \<open>RangeError\<close> of \<open>toISOString()\<close>.
  The lemmas above are the rejections that do take place: of the sum and of dates that
  parse, by \<open>runBacktest\<close>; of the amount, by the controller's \<open>@Min(1)\<close> and not by
  \<open>runBacktest\<close>.
\<close>

theorem postRun_week_dates:
  "validRunBacktestDto
     \<lparr>parseDate = (\<lambda>s. if s = ''2024-01-01'' then Some 1704067200000
                        else if s = ''2024-02-01'' then Some 1706745600000 else None),
      isoDay = (\<lambda>t. ''''), fetchPoolHistory = (\<lambda>p f t. FetchData (Some [])),
      isDateString = (\<lambda>s. s \<in> {''2024-01-01'', ''2024-02-01'', ''2024-W01'', ''2024-W02''})\<rparr>
     \<lparr>initialAmountUsd = 1000, dto_from = ''2024-W02'', dto_to = ''2024-W01'',
      allocations =
        [\<lparr>a_protocol = ''bifrost'', a_assetSymbol = ''vDOT'', a_percentage = 60, a_poolType = None\<rparr>,
         \<lparr>a_protocol = ''hydration'', a_assetSymbol = ''HOLLAR'', a_percentage = 40, a_poolType = None\<rparr>],
      rebalanceIntervalDays = None, includeIL = None, xcmFeeUsd = None\<rparr>
   \<and> postRun
     \<lparr>parseDate = (\<lambda>s. if s = ''2024-01-01'' then Some 1704067200000
                        else if s = ''2024-02-01'' then Some 1706745600000 else None),
      isoDay = (\<lambda>t. ''''), fetchPoolHistory = (\<lambda>p f t. FetchData (Some [])),
      isDateString = (\<lambda>s. s \<in> {''2024-01-01'', ''2024-02-01'', ''2024-W01'', ''2024-W02''})\<rparr>
     \<lparr>initialAmountUsd = 1000, dto_from = ''2024-W02'', dto_to = ''2024-W01'',
      allocations =
        [\<lparr>a_protocol = ''bifrost'', a_assetSymbol = ''vDOT'', a_percentage = 60, a_poolType = None\<rparr>,
         \<lparr>a_protocol = ''hydration'', a_assetSymbol = ''HOLLAR'', a_percentage = 40, a_poolType = None\<rparr>],
      rebalanceIntervalDays = None, includeIL = None, xcmFeeUsd = None\<rparr>
     = ([''bifrost'', ''hydration''], Inl InvalidTimeValue)"
  by (simp add: postRun_def validRunBacktestDto_def validAllocationDto_def runBacktest_def
        Let_def dateGe_def uniqFirst_def)

subsection \<open>Zero yield\<close>






























subsection \<open>Yield derivation\<close>

lemma lastOpt_Some_mem: "lastOpt xs = Some x \<Longrightarrow> x \<in> set xs"
  by (auto simp: lastOpt_def split: if_splits)

lemma findAtOrBefore_Some:
  assumes "findAtOrBefore tsym t repo = Some r"
  shows "timestamp r \<le> t \<and> tokenSymbol r = tsym \<and> r \<in> set repo"
  using lastOpt_Some_mem[OF assms[unfolded findAtOrBefore_def]] by simp

lemma windowApy_formula:
  "windowApy cur t ref =
     (case ref of
        None \<Rightarrow> 0
      | Some r \<Rightarrow>
          if 0 < exchangeRateHuman r \<and> exchangeRateHuman r < cur
          then (1 + (cur / exchangeRateHuman r - 1))
                 powr (365 / (real_of_int (t - timestamp r) / 86400000)) - 1
          else 0)"
  by (simp add: windowApy_def Let_def split: option.split)

lemma windowApy_pos:
  assumes "ref = Some r" "0 < exchangeRateHuman r" "exchangeRateHuman r < cur" "timestamp r < t"
  shows "0 < windowApy cur t ref"
proof -
  have b: "1 < cur / exchangeRateHuman r" using assms(2,3) by simp
  have e: "0 < 365 / (real_of_int (t - timestamp r) / 86400000)" using assms(4) by simp
  have "1 < (cur / exchangeRateHuman r) powr (365 / (real_of_int (t - timestamp r) / 86400000))"
    using b e by simp
  then show ?thesis using assms(1,2,3) by (simp add: windowApy_formula)
qed

lemma windowApy_nonneg:
  assumes "\<forall>r. ref = Some r \<longrightarrow> timestamp r < t"
  shows "0 \<le> windowApy cur t ref"
proof (cases ref)
  case None
  then show ?thesis by (simp add: windowApy_def)
next
  case (Some r)
  show ?thesis
  proof (cases "0 < exchangeRateHuman r \<and> exchangeRateHuman r < cur")
    case True
    then show ?thesis using windowApy_pos[OF Some, of cur t] assms Some by simp
  next
    case False
    then show ?thesis using Some by (auto simp: windowApy_def)
  qed
qed

lemma jsOr_nonneg:
  assumes "0 \<le> a" "0 \<le> b"
  shows "jsOr a b = (if 0 < a then a else if 0 < b then b else 0)"
  using assms by (auto simp: jsOr_def)

lemma apyWindows_Some:
  assumes "apyWindows tsym repo = Some (latest, rate7d, rate30d)"
  shows "findLatestByBlock tsym repo = Some latest"
    and "rate7d = findAtOrBefore tsym (timestamp latest - 7 * 24 * 60 * 60 * 1000) repo"
    and "rate30d = findAtOrBefore tsym (timestamp latest - 30 * 24 * 60 * 60 * 1000) repo"
  using assms by (auto simp: apyWindows_def Let_def split: option.splits)

lemma apyWindows_ages:
  assumes "apyWindows tsym repo = Some (latest, rate7d, rate30d)"
  shows "\<forall>r. rate7d = Some r \<longrightarrow> timestamp r \<le> timestamp latest - 604800000"
    and "\<forall>r. rate30d = Some r \<longrightarrow> timestamp r \<le> timestamp latest - 2592000000"
proof -
  show "\<forall>r. rate7d = Some r \<longrightarrow> timestamp r \<le> timestamp latest - 604800000"
  proof (intro allI impI)
    fix r assume "rate7d = Some r"
    then have "findAtOrBefore tsym (timestamp latest - 7 * 24 * 60 * 60 * 1000) repo = Some r"
      using apyWindows_Some(2)[OF assms] by simp
    from findAtOrBefore_Some[OF this] show "timestamp r \<le> timestamp latest - 604800000" by simp
  qed
  show "\<forall>r. rate30d = Some r \<longrightarrow> timestamp r \<le> timestamp latest - 2592000000"
  proof (intro allI impI)
    fix r assume "rate30d = Some r"
    then have "findAtOrBefore tsym (timestamp latest - 30 * 24 * 60 * 60 * 1000) repo = Some r"
      using apyWindows_Some(3)[OF assms] by simp
    from findAtOrBefore_Some[OF this] show "timestamp r \<le> timestamp latest - 2592000000" by simp
  qed
qed

lemma windowApy_pos_iff:
  assumes "\<forall>r. ref = Some r \<longrightarrow> timestamp r < t"
  shows "0 < windowApy cur t ref \<longleftrightarrow>
           (\<exists>r. ref = Some r \<and> 0 < exchangeRateHuman r \<and> exchangeRateHuman r < cur)"
proof (cases ref)
  case None
  then show ?thesis by (simp add: windowApy_def)
next
  case (Some r)
  show ?thesis
  proof (cases "0 < exchangeRateHuman r \<and> exchangeRateHuman r < cur")
    case True
    then show ?thesis using windowApy_pos[OF Some, of cur t] assms Some by simp
  next
    case False
    then show ?thesis using Some by (auto simp: windowApy_def)
  qed
qed

text \<open>
  C4. In \<open>computeApyForAsset\<close> the figure of a window is
  \<open>(1 + (current / reference - 1)) ^ (365 / days between) - 1\<close> when the reference
  observation exists, its rate is positive and the current rate is above it, and 0
  otherwise. The reference is at least 7, or 30, days old, so a figure that contributes is
  positive and no figure is negative. The staking yield is 100 times the 7-day figure when
  that is positive, else 100 times the 30-day figure when that is positive, else 0; the
  snapshot stores the three through \<open>toFixed(4)\<close>.
\<close>

theorem staking_yield_rule:
  assumes "apyWindows tsym repo = Some (latest, rate7d, rate30d)"
  shows "(let cur = exchangeRateHuman latest;
              t = timestamp latest;
              a7 = windowApy cur t rate7d;
              a30 = windowApy cur t rate30d;
              staking = 100 * (if 0 < a7 then a7 else if 0 < a30 then a30 else 0)
          in a7 = (case rate7d of
                     None \<Rightarrow> 0
                   | Some r \<Rightarrow>
                       if 0 < exchangeRateHuman r \<and> exchangeRateHuman r < cur
                       then (1 + (cur / exchangeRateHuman r - 1))
                              powr (365 / (real_of_int (t - timestamp r) / 86400000)) - 1
                       else 0)
             \<and> a30 = (case rate30d of
                     None \<Rightarrow> 0
                   | Some r \<Rightarrow>
                       if 0 < exchangeRateHuman r \<and> exchangeRateHuman r < cur
                       then (1 + (cur / exchangeRateHuman r - 1))
                              powr (365 / (real_of_int (t - timestamp r) / 86400000)) - 1
                       else 0)
             \<and> (case rate7d of None \<Rightarrow> True | Some r \<Rightarrow> 7 \<le> real_of_int (t - timestamp r) / 86400000)
             \<and> (case rate30d of None \<Rightarrow> True | Some r \<Rightarrow> 30 \<le> real_of_int (t - timestamp r) / 86400000)
             \<and> 0 \<le> a7 \<and> 0 \<le> a30
             \<and> (0 < a7 \<longleftrightarrow> (\<exists>r. rate7d = Some r \<and> 0 < exchangeRateHuman r \<and> exchangeRateHuman r < cur))
             \<and> (0 < a30 \<longleftrightarrow> (\<exists>r. rate30d = Some r \<and> 0 < exchangeRateHuman r \<and> exchangeRateHuman r < cur))
             \<and> jsOr a7 a30 * 100 = staking
             \<and> (\<exists>d. computeDoc tsym price now repo = Some d
                     \<and> stakingApyPercent d = toFixed4 staking
                     \<and> apy7d d = toFixed4 (a7 * 100)
                     \<and> apy30d d = toFixed4 (a30 * 100)))"
proof -
  let ?cur = "exchangeRateHuman latest"
  let ?t = "timestamp latest"
  let ?a7 = "windowApy ?cur ?t rate7d"
  let ?a30 = "windowApy ?cur ?t rate30d"
  let ?staking = "100 * (if 0 < ?a7 then ?a7 else if 0 < ?a30 then ?a30 else 0)"
  note ages = apyWindows_ages[OF assms]
  have lt7: "\<forall>r. rate7d = Some r \<longrightarrow> timestamp r < ?t" using ages(1) by fastforce
  have lt30: "\<forall>r. rate30d = Some r \<longrightarrow> timestamp r < ?t" using ages(2) by fastforce
  have d7: "case rate7d of None \<Rightarrow> True | Some r \<Rightarrow> 7 \<le> real_of_int (?t - timestamp r) / 86400000"
  proof (cases rate7d)
    case None then show ?thesis by simp
  next
    case (Some r)
    then have "604800000 \<le> ?t - timestamp r" using ages(1) by simp
    then have "(604800000::real) \<le> real_of_int (?t - timestamp r)" by linarith
    then show ?thesis using Some by simp
  qed
  have d30: "case rate30d of None \<Rightarrow> True | Some r \<Rightarrow> 30 \<le> real_of_int (?t - timestamp r) / 86400000"
  proof (cases rate30d)
    case None then show ?thesis by simp
  next
    case (Some r)
    then have "2592000000 \<le> ?t - timestamp r" using ages(2) by simp
    then have "(2592000000::real) \<le> real_of_int (?t - timestamp r)" by linarith
    then show ?thesis using Some by simp
  qed
  have n7: "0 \<le> ?a7" by (rule windowApy_nonneg[OF lt7])
  have n30: "0 \<le> ?a30" by (rule windowApy_nonneg[OF lt30])
  have st: "jsOr ?a7 ?a30 * 100 = ?staking" using jsOr_nonneg[OF n7 n30] by simp
  have doc: "\<exists>d. computeDoc tsym price now repo = Some d
                     \<and> stakingApyPercent d = toFixed4 ?staking
                     \<and> apy7d d = toFixed4 (?a7 * 100)
                     \<and> apy30d d = toFixed4 (?a30 * 100)"
    unfolding st[symmetric] by (simp add: computeDoc_def assms Let_def)
  show ?thesis
    unfolding Let_def
    using windowApy_formula[of ?cur ?t rate7d] windowApy_formula[of ?cur ?t rate30d]
      d7 d30 n7 n30 windowApy_pos_iff[OF lt7, of ?cur] windowApy_pos_iff[OF lt30, of ?cur] st doc
    by (intro conjI)
qed

lemma example_windows:
  "apyWindows ''vDOT''
     [\<lparr>tokenSymbol = ''vDOT'', blockNumber = 1, timestamp = 0, exchangeRateHuman = 1, chain = ''bifrost-polkadot''\<rparr>,
      \<lparr>tokenSymbol = ''vDOT'', blockNumber = 2, timestamp = 691200000, exchangeRateHuman = 101 / 100, chain = ''bifrost-polkadot''\<rparr>]
   = Some (\<lparr>tokenSymbol = ''vDOT'', blockNumber = 2, timestamp = 691200000, exchangeRateHuman = 101 / 100, chain = ''bifrost-polkadot''\<rparr>,
           Some \<lparr>tokenSymbol = ''vDOT'', blockNumber = 1, timestamp = 0, exchangeRateHuman = 1, chain = ''bifrost-polkadot''\<rparr>,
           None)"
  by (simp add: apyWindows_def findLatestByBlock_def findAtOrBefore_def lastOpt_def Let_def)

theorem staking_yield_rule_witness:
  "apyWindows ''vDOT''
     [\<lparr>tokenSymbol = ''vDOT'', blockNumber = 1, timestamp = 0, exchangeRateHuman = 1, chain = ''bifrost-polkadot''\<rparr>,
      \<lparr>tokenSymbol = ''vDOT'', blockNumber = 2, timestamp = 691200000, exchangeRateHuman = 101 / 100, chain = ''bifrost-polkadot''\<rparr>]
   = Some (\<lparr>tokenSymbol = ''vDOT'', blockNumber = 2, timestamp = 691200000, exchangeRateHuman = 101 / 100, chain = ''bifrost-polkadot''\<rparr>,
           Some \<lparr>tokenSymbol = ''vDOT'', blockNumber = 1, timestamp = 0, exchangeRateHuman = 1, chain = ''bifrost-polkadot''\<rparr>,
           None)
   \<and> 0 < windowApy (101 / 100) 691200000
            (Some \<lparr>tokenSymbol = ''vDOT'', blockNumber = 1, timestamp = 0, exchangeRateHuman = 1, chain = ''bifrost-polkadot''\<rparr>)
   \<and> windowApy (101 / 100) 691200000 None = 0
   \<and> jsOr (windowApy (101 / 100) 691200000
            (Some \<lparr>tokenSymbol = ''vDOT'', blockNumber = 1, timestamp = 0, exchangeRateHuman = 1, chain = ''bifrost-polkadot''\<rparr>))
          (windowApy (101 / 100) 691200000 None) * 100
      = 100 * windowApy (101 / 100) 691200000
            (Some \<lparr>tokenSymbol = ''vDOT'', blockNumber = 1, timestamp = 0, exchangeRateHuman = 1, chain = ''bifrost-polkadot''\<rparr>)"
proof -
  note r = staking_yield_rule[OF example_windows, where price = 5 and now = 0, unfolded Let_def]
  from r have p: "0 < windowApy (101 / 100) 691200000
            (Some \<lparr>tokenSymbol = ''vDOT'', blockNumber = 1, timestamp = 0, exchangeRateHuman = 1, chain = ''bifrost-polkadot''\<rparr>)"
    by simp
  from r have j: "jsOr (windowApy (101 / 100) 691200000
            (Some \<lparr>tokenSymbol = ''vDOT'', blockNumber = 1, timestamp = 0, exchangeRateHuman = 1, chain = ''bifrost-polkadot''\<rparr>))
          (windowApy (101 / 100) 691200000 None) * 100
      = 100 * (if 0 < windowApy (101 / 100) 691200000
            (Some \<lparr>tokenSymbol = ''vDOT'', blockNumber = 1, timestamp = 0, exchangeRateHuman = 1, chain = ''bifrost-polkadot''\<rparr>)
          then windowApy (101 / 100) 691200000
            (Some \<lparr>tokenSymbol = ''vDOT'', blockNumber = 1, timestamp = 0, exchangeRateHuman = 1, chain = ''bifrost-polkadot''\<rparr>)
          else if 0 < windowApy (101 / 100) 691200000 None then windowApy (101 / 100) 691200000 None else 0)"
    by (elim conjE) simp
  have n: "windowApy (101 / 100) 691200000 None = 0" by (simp add: windowApy_def)
  show ?thesis
    by (intro conjI) (rule example_windows, rule p, rule n, simp only: j p if_True)
qed

subsection \<open>Backfill and single derivation\<close>

lemma batch_reference:
  "lastOpt (filter (\<lambda>r. timestamp r \<le> t) (findAllAscending tsym repo)) = findAtOrBefore tsym t repo"
  by (simp add: findAllAscending_def findAtOrBefore_def filter_sort)

lemma findAtOrBefore_agree:
  assumes "filter (\<lambda>r. tokenSymbol r = tsym \<and> timestamp r \<le> t7) repo'
             = filter (\<lambda>r. tokenSymbol r = tsym \<and> timestamp r \<le> t7) repo"
      and "t \<le> t7"
  shows "findAtOrBefore tsym t repo' = findAtOrBefore tsym t repo"
proof -
  have "filter (\<lambda>r. tokenSymbol r = tsym \<and> timestamp r \<le> t) xs
          = filter (\<lambda>r. timestamp r \<le> t) (filter (\<lambda>r. tokenSymbol r = tsym \<and> timestamp r \<le> t7) xs)"
    for xs :: "VTokenExchangeRate list"
    using assms(2) by (auto intro!: filter_cong)
  then show ?thesis using assms(1) by (simp only: findAtOrBefore_def)
qed

lemma backfillDoc_single:
  assumes latest: "findLatestByBlock tsym repo' = Some cur"
      and agree: "filter (\<lambda>r. tokenSymbol r = tsym \<and> timestamp r \<le> timestamp cur - 604800000) repo'
                    = filter (\<lambda>r. tokenSymbol r = tsym \<and> timestamp r \<le> timestamp cur - 604800000) repo"
  shows "\<exists>d. computeDoc tsym price now repo' = Some d
           \<and> backfillDoc tsym price now (findAllAscending tsym repo) cur =
               (if 0 < jsOr (windowApy (exchangeRateHuman cur) (timestamp cur)
                               (findAtOrBefore tsym (timestamp cur - 604800000) repo'))
                            (windowApy (exchangeRateHuman cur) (timestamp cur)
                               (findAtOrBefore tsym (timestamp cur - 2592000000) repo')) * 100
                then Some (d\<lparr>snap_chain := chain cur\<rparr>) else None)"
proof -
  have r7: "findAtOrBefore tsym (timestamp cur - 604800000) repo'
              = findAtOrBefore tsym (timestamp cur - 604800000) repo"
    by (rule findAtOrBefore_agree[OF agree]) simp
  have r30: "findAtOrBefore tsym (timestamp cur - 2592000000) repo'
              = findAtOrBefore tsym (timestamp cur - 2592000000) repo"
    by (rule findAtOrBefore_agree[OF agree]) simp
  have w: "apyWindows tsym repo' =
             Some (cur, findAtOrBefore tsym (timestamp cur - 604800000) repo,
                   findAtOrBefore tsym (timestamp cur - 2592000000) repo)"
    using r7 r30 by (simp add: apyWindows_def latest Let_def)
  show ?thesis
    unfolding r7 r30
    by (simp add: computeDoc_def w backfillDoc_def batch_reference Let_def)
qed

lemma set_AList_update:
  "p \<in> set (AList.update k v al) \<Longrightarrow> p = (k, v) \<or> p \<in> set al"
  by (induction al) (auto split: if_splits)

lemma dailyMap_inv:
  assumes "distinct (map fst m0)" "\<forall>p\<in>set m0. k (snd p) = fst p"
  shows "distinct (map fst (foldl (\<lambda>m r. AList.update (k r) r m) m0 rs))
         \<and> (\<forall>p\<in>set (foldl (\<lambda>m r. AList.update (k r) r m) m0 rs). k (snd p) = fst p)"
  using assms
proof (induction rs arbitrary: m0)
  case Nil
  then show ?case by simp
next
  case (Cons r rs)
  have d: "distinct (map fst (AList.update (k r) r m0))"
    using Cons.prems(1) by (rule distinct_update)
  have i: "\<forall>p\<in>set (AList.update (k r) r m0). k (snd p) = fst p"
    using Cons.prems(2) set_AList_update[of _ "k r" r m0] by fastforce
  show ?case using Cons.IH[OF d i] by simp
qed

lemma dailyMap_lookup:
  "map_of (foldl (\<lambda>m r. AList.update (k r) r m) m0 rs) key =
     (if \<exists>r\<in>set rs. k r = key then Some (last (filter (\<lambda>r. k r = key) rs)) else map_of m0 key)"
proof (induction rs arbitrary: m0)
  case Nil
  show ?case by simp
next
  case (Cons r rs)
  show ?case
  proof (cases "\<exists>x\<in>set rs. k x = key")
    case True
    then have "filter (\<lambda>r. k r = key) rs \<noteq> []" by (simp add: filter_empty_conv)
    then show ?thesis using True by (simp add: Cons.IH)
  next
    case False
    then have "filter (\<lambda>r. k r = key) rs = []" by (simp add: filter_empty_conv)
    then show ?thesis using False by (simp add: Cons.IH update_conv')
  qed
qed

lemma dailyRates_distinct:
  "distinct (map (\<lambda>r. toDay (timestamp r)) (dailyRates toDay rs))"
proof -
  let ?m = "foldl (\<lambda>m r. AList.update (toDay (timestamp r)) r m) [] rs"
  have inv: "distinct (map fst ?m) \<and> (\<forall>p\<in>set ?m. toDay (timestamp (snd p)) = fst p)"
    by (rule dailyMap_inv[where k = "\<lambda>r. toDay (timestamp r)"]) simp_all
  then have "map (\<lambda>r. toDay (timestamp r)) (map snd ?m) = map fst ?m" by simp
  then show ?thesis using inv by (simp only: dailyRates_def)
qed

lemma dailyRates_latest:
  assumes "r \<in> set (dailyRates toDay rs)"
  shows "r \<in> set rs \<and> r = last (filter (\<lambda>x. toDay (timestamp x) = toDay (timestamp r)) rs)"
proof -
  let ?m = "foldl (\<lambda>m r. AList.update (toDay (timestamp r)) r m) [] rs"
  have inv: "distinct (map fst ?m) \<and> (\<forall>p\<in>set ?m. toDay (timestamp (snd p)) = fst p)"
    by (rule dailyMap_inv[where k = "\<lambda>r. toDay (timestamp r)"]) simp_all
  from assms obtain key where p: "(key, r) \<in> set ?m" by (auto simp: dailyRates_def)
  then have key: "key = toDay (timestamp r)" using inv by fastforce
  have "map_of ?m key = Some r" using p inv by simp
  then have ms: "map_of ?m key = Some r" .
  have look: "map_of ?m key =
     (if \<exists>x\<in>set rs. toDay (timestamp x) = key
      then Some (last (filter (\<lambda>x. toDay (timestamp x) = key) rs)) else map_of [] key)"
    by (rule dailyMap_lookup)
  have e: "\<exists>x\<in>set rs. toDay (timestamp x) = key"
  proof (rule ccontr)
    assume n: "\<not> (\<exists>x\<in>set rs. toDay (timestamp x) = key)"
    have "map_of ?m key = None" unfolding look using n by simp
    with ms show False by simp
  qed
  have "map_of ?m key = Some (last (filter (\<lambda>x. toDay (timestamp x) = key) rs))"
    unfolding look using e by simp
  with ms have r: "r = last (filter (\<lambda>x. toDay (timestamp x) = key) rs)" by simp
  have "filter (\<lambda>x. toDay (timestamp x) = key) rs \<noteq> []" using e by (simp add: filter_empty_conv)
  then have "last (filter (\<lambda>x. toDay (timestamp x) = key) rs) \<in> set (filter (\<lambda>x. toDay (timestamp x) = key) rs)"
    by (rule last_in_set)
  then have "last (filter (\<lambda>x. toDay (timestamp x) = key) rs) \<in> set rs" by simp
  then have m: "r \<in> set rs" by (simp only: r[symmetric])
  show ?thesis
  proof
    show "r \<in> set rs" by (rule m)
    show "r = last (filter (\<lambda>x. toDay (timestamp x) = toDay (timestamp r)) rs)"
      by (rule r[unfolded key])
  qed
qed

lemma dailyRates_covers:
  assumes "x \<in> set rs"
  shows "\<exists>r\<in>set (dailyRates toDay rs). toDay (timestamp r) = toDay (timestamp x)"
proof -
  let ?m = "foldl (\<lambda>m r. AList.update (toDay (timestamp r)) r m) [] rs"
  have "map_of ?m (toDay (timestamp x)) \<noteq> None"
    using dailyMap_lookup[of "\<lambda>r. toDay (timestamp r)" "[]" rs "toDay (timestamp x)"] assms by auto
  then obtain r where r: "map_of ?m (toDay (timestamp x)) = Some r" by auto
  then have m: "(toDay (timestamp x), r) \<in> set ?m" by (rule map_of_SomeD)
  have inv: "distinct (map fst ?m) \<and> (\<forall>p\<in>set ?m. toDay (timestamp (snd p)) = fst p)"
    by (rule dailyMap_inv[where k = "\<lambda>r. toDay (timestamp r)"]) simp_all
  then have "toDay (timestamp r) = toDay (timestamp x)" using m by fastforce
  moreover have "r \<in> set (dailyRates toDay rs)" using m by (force simp: dailyRates_def)
  ultimately show ?thesis by blast
qed

lemma upsert_keys:
  assumes "\<forall>x. matches x \<longleftrightarrow> batchKey x = batchKey doc"
  shows "map batchKey (upsert matches doc store) =
           (if batchKey doc \<in> set (map batchKey store) then map batchKey store
            else map batchKey store @ [batchKey doc])"
  using assms by (induction store) auto

lemma upsert_distinct:
  assumes "\<forall>x. matches x \<longleftrightarrow> batchKey x = batchKey doc" "distinct (map batchKey store)"
  shows "distinct (map batchKey (upsert matches doc store))"
  using assms(2) by (simp add: upsert_keys[OF assms(1)])

lemma backfillDoc_fields:
  assumes "backfillDoc tsym price now allRates cur = Some d"
  shows "asset d = tsym \<and> granularity d = ''hourly'' \<and> snap_timestamp d = timestamp cur"
  using assms by (auto simp: backfillDoc_def Let_def split: if_splits)

lemma bulk_distinct:
  assumes "\<forall>d\<in>set docs. asset d = tsym \<and> granularity d = ''hourly''"
      and "distinct (map batchKey store)"
  shows "distinct (map batchKey
           (foldl (\<lambda>store doc.
                     upsert (\<lambda>x. asset x = tsym \<and> snap_timestamp x = snap_timestamp doc
                                  \<and> granularity x = ''hourly'') doc store) store docs))"
  using assms
proof (induction docs arbitrary: store)
  case Nil
  then show ?case by simp
next
  case (Cons d docs)
  have m: "\<forall>x. (asset x = tsym \<and> snap_timestamp x = snap_timestamp d \<and> granularity x = ''hourly'')
                \<longleftrightarrow> batchKey x = batchKey d"
    using Cons.prems(1) by (auto simp: batchKey_def)
  have "distinct (map batchKey (upsert (\<lambda>x. asset x = tsym \<and> snap_timestamp x = snap_timestamp d
                                  \<and> granularity x = ''hourly'') d store))"
    by (rule upsert_distinct[OF m Cons.prems(2)])
  then show ?case using Cons.IH Cons.prems(1) by simp
qed

lemma map_filter_mem:
  "d \<in> set (List.map_filter f xs) \<Longrightarrow> \<exists>x\<in>set xs. f x = Some d"
  by (induction xs) (auto split: option.splits)

lemma backfill_distinct:
  assumes "distinct (map batchKey apyRepo)"
  shows "distinct (map batchKey (fst (backfillApyHistory toDay tsym price now repo apyRepo)))"
proof -
  have "\<forall>d\<in>set (backfillDocs toDay tsym price now repo). asset d = tsym \<and> granularity d = ''hourly''"
  proof
    fix d assume "d \<in> set (backfillDocs toDay tsym price now repo)"
    then obtain cur where "backfillDoc tsym price now (findAllAscending tsym repo) cur = Some d"
      unfolding backfillDocs_def Let_def using map_filter_mem by fast
    then show "asset d = tsym \<and> granularity d = ''hourly''" using backfillDoc_fields by blast
  qed
  then show ?thesis using assms by (simp add: backfillApyHistory_def Let_def bulk_distinct)
qed

lemma upsert_append:
  "\<forall>x\<in>set store. \<not> matches x \<Longrightarrow> upsert matches doc store = store @ [doc]"
  by (induction store) simp_all

lemma upsert_mem: "doc \<in> set (upsert matches doc store)"
  by (induction store) simp_all

lemma upsert_keep: "x \<in> set store \<Longrightarrow> \<not> matches x \<Longrightarrow> x \<in> set (upsert matches doc store)"
  by (induction store) auto

lemma upsert_sub: "set (upsert matches doc store) \<subseteq> insert doc (set store)"
  by (induction store) auto

lemma bulk_append:
  assumes "distinct (map snap_timestamp docs)"
      and "\<forall>x\<in>set store. \<forall>d\<in>set docs.
             \<not> (asset x = tsym \<and> snap_timestamp x = snap_timestamp d \<and> granularity x = ''hourly'')"
  shows "foldl (\<lambda>store doc.
                  upsert (\<lambda>x. asset x = tsym \<and> snap_timestamp x = snap_timestamp doc
                               \<and> granularity x = ''hourly'') doc store) store docs
         = store @ docs"
  using assms
proof (induction docs arbitrary: store)
  case Nil
  show ?case by simp
next
  case (Cons d docs)
  have u: "upsert (\<lambda>x. asset x = tsym \<and> snap_timestamp x = snap_timestamp d
                        \<and> granularity x = ''hourly'') d store = store @ [d]"
    by (rule upsert_append) (use Cons.prems(2) in simp)
  have d: "distinct (map snap_timestamp docs)" using Cons.prems(1) by simp
  have n: "\<forall>x\<in>set (store @ [d]). \<forall>e\<in>set docs.
             \<not> (asset x = tsym \<and> snap_timestamp x = snap_timestamp e \<and> granularity x = ''hourly'')"
    using Cons.prems by auto
  show ?case using Cons.IH[OF d n] by (simp add: u)
qed

lemma bulk_keep:
  assumes "x \<in> set store"
      and "\<forall>d\<in>set docs.
             \<not> (asset x = tsym \<and> snap_timestamp x = snap_timestamp d \<and> granularity x = ''hourly'')"
  shows "x \<in> set (foldl (\<lambda>store doc.
                  upsert (\<lambda>x. asset x = tsym \<and> snap_timestamp x = snap_timestamp doc
                               \<and> granularity x = ''hourly'') doc store) store docs)"
  using assms
proof (induction docs arbitrary: store)
  case Nil
  then show ?case by simp
next
  case (Cons d docs)
  have "x \<in> set (upsert (\<lambda>x. asset x = tsym \<and> snap_timestamp x = snap_timestamp d
                        \<and> granularity x = ''hourly'') d store)"
    by (rule upsert_keep[OF Cons.prems(1)]) (use Cons.prems(2) in simp)
  then show ?case using Cons.IH Cons.prems(2) by simp
qed

lemma bulk_contains:
  assumes "distinct (map snap_timestamp docs)" "d \<in> set docs"
  shows "d \<in> set (foldl (\<lambda>store doc.
                  upsert (\<lambda>x. asset x = tsym \<and> snap_timestamp x = snap_timestamp doc
                               \<and> granularity x = ''hourly'') doc store) store docs)"
  using assms
proof (induction docs arbitrary: store)
  case Nil
  then show ?case by simp
next
  case (Cons e docs)
  show ?case
  proof (cases "d = e")
    case True
    have m: "d \<in> set (upsert (\<lambda>x. asset x = tsym \<and> snap_timestamp x = snap_timestamp d
                        \<and> granularity x = ''hourly'') d store)"
      by (rule upsert_mem)
    have "\<forall>e\<in>set docs.
             \<not> (asset d = tsym \<and> snap_timestamp d = snap_timestamp e \<and> granularity d = ''hourly'')"
      using Cons.prems(1) True by auto
    then show ?thesis using bulk_keep[OF m] True by simp
  next
    case False
    then have "d \<in> set docs" using Cons.prems(2) by simp
    moreover have "distinct (map snap_timestamp docs)" using Cons.prems(1) by simp
    ultimately show ?thesis using Cons.IH by simp
  qed
qed

lemma bulk_sub:
  "set (foldl (\<lambda>store doc.
                  upsert (\<lambda>x. asset x = tsym \<and> snap_timestamp x = snap_timestamp doc
                               \<and> granularity x = ''hourly'') doc store) store docs)
     \<subseteq> set store \<union> set docs"
proof (induction docs arbitrary: store)
  case Nil
  show ?case by simp
next
  case (Cons d docs)
  show ?case using Cons.IH[of "upsert (\<lambda>x. asset x = tsym \<and> snap_timestamp x = snap_timestamp d
                        \<and> granularity x = ''hourly'') d store"]
      upsert_sub[of "\<lambda>x. asset x = tsym \<and> snap_timestamp x = snap_timestamp d
                        \<and> granularity x = ''hourly''" d store]
    by auto
qed

lemma bulk_batchKey:
  assumes "\<forall>d\<in>set docs. asset d = tsym \<and> granularity d = ''hourly''"
  shows "foldl (\<lambda>store doc.
                  upsert (\<lambda>x. asset x = tsym \<and> snap_timestamp x = snap_timestamp doc
                               \<and> granularity x = ''hourly'') doc store) store docs
         = foldl (\<lambda>store doc. upsert (\<lambda>x. batchKey x = batchKey doc) doc store) store docs"
  using assms
proof (induction docs arbitrary: store)
  case Nil
  show ?case by simp
next
  case (Cons d docs)
  have "(\<lambda>x. asset x = tsym \<and> snap_timestamp x = snap_timestamp d \<and> granularity x = ''hourly'')
          = (\<lambda>x. batchKey x = batchKey d)"
    using Cons.prems by (auto simp: batchKey_def)
  then show ?case using Cons.IH Cons.prems by simp
qed

lemma distinct_map_comp:
  "distinct (map (\<lambda>x. g (f x)) xs) \<Longrightarrow> distinct (map f xs)"
  by (induction xs) auto

lemma map_filter_timestamps:
  assumes "\<forall>x d. f x = Some d \<longrightarrow> snap_timestamp d = timestamp x"
  shows "map snap_timestamp (List.map_filter f xs) = map timestamp (filter (\<lambda>x. f x \<noteq> None) xs)"
  using assms by (induction xs) (auto simp: List.map_filter_simps split: option.splits)

lemma backfillDocs_fields:
  assumes "d \<in> set (backfillDocs toDay tsym price now repo)"
  shows "asset d = tsym \<and> granularity d = ''hourly''"
proof -
  from assms obtain cur where "backfillDoc tsym price now (findAllAscending tsym repo) cur = Some d"
    unfolding backfillDocs_def Let_def using map_filter_mem by fast
  then show ?thesis using backfillDoc_fields by blast
qed

lemma backfillDocs_timestamps:
  "distinct (map snap_timestamp (backfillDocs toDay tsym price now repo))"
proof -
  let ?all = "findAllAscending tsym repo"
  have f: "\<forall>x d. backfillDoc tsym price now ?all x = Some d \<longrightarrow> snap_timestamp d = timestamp x"
    using backfillDoc_fields by blast
  have "distinct (map timestamp (dailyRates toDay ?all))"
    by (rule distinct_map_comp[where g = toDay]) (rule dailyRates_distinct)
  then have "distinct (map timestamp (filter (\<lambda>x. backfillDoc tsym price now ?all x \<noteq> None)
                                        (dailyRates toDay ?all)))"
    by (rule distinct_map_filter)
  then show ?thesis
    unfolding backfillDocs_def Let_def map_filter_timestamps[OF f] .
qed

lemma backfill_store:
  "fst (backfillApyHistory toDay tsym price now repo apyRepo) =
     foldl (\<lambda>store doc. upsert (\<lambda>x. batchKey x = batchKey doc) doc store) apyRepo
       (backfillDocs toDay tsym price now repo)"
proof -
  have "\<forall>d\<in>set (backfillDocs toDay tsym price now repo). asset d = tsym \<and> granularity d = ''hourly''"
    using backfillDocs_fields by blast
  then show ?thesis by (simp add: backfillApyHistory_def Let_def bulk_batchKey)
qed

lemma backfill_store_fresh:
  assumes "\<forall>x\<in>set apyRepo. \<forall>d\<in>set (backfillDocs toDay tsym price now repo). batchKey x \<noteq> batchKey d"
  shows "fst (backfillApyHistory toDay tsym price now repo apyRepo) =
           apyRepo @ backfillDocs toDay tsym price now repo"
proof -
  have "\<forall>x\<in>set apyRepo. \<forall>d\<in>set (backfillDocs toDay tsym price now repo).
             \<not> (asset x = tsym \<and> snap_timestamp x = snap_timestamp d \<and> granularity x = ''hourly'')"
    using assms backfillDocs_fields[of _ toDay tsym price now repo] by (auto simp: batchKey_def)
  then show ?thesis
    by (simp add: backfillApyHistory_def Let_def bulk_append[OF backfillDocs_timestamps])
qed

lemma backfill_store_contains:
  "set (backfillDocs toDay tsym price now repo)
     \<subseteq> set (fst (backfillApyHistory toDay tsym price now repo apyRepo))"
  using bulk_contains[OF backfillDocs_timestamps]
  by (auto simp: backfillApyHistory_def Let_def)

lemma backfill_store_sub:
  "set (fst (backfillApyHistory toDay tsym price now repo apyRepo))
     \<subseteq> set apyRepo \<union> set (backfillDocs toDay tsym price now repo)"
  using bulk_sub by (simp add: backfillApyHistory_def Let_def)

lemma computeDoc_fields:
  assumes "findLatestByBlock tsym repo = Some cur" "computeDoc tsym price now repo = Some d"
  shows "singleKey d = (tsym, blockNumber cur, ''hourly'') \<and> batchKey d = (tsym, timestamp cur, ''hourly'')"
  using assms by (auto simp: computeDoc_def apyWindows_def Let_def singleKey_def batchKey_def)

lemma computeApyForAsset_key:
  assumes "findLatestByBlock tsym repo = Some cur" "computeDoc tsym price now repo = Some d"
  shows "computeApyForAsset tsym price now repo store = upsert (\<lambda>x. singleKey x = singleKey d) d store"
proof -
  have k: "singleKey d = (tsym, blockNumber cur, ''hourly'')"
    using computeDoc_fields[OF assms] by simp
  then have "snap_blockNumber d = blockNumber cur" by (simp add: singleKey_def)
  then have "(\<lambda>x. asset x = tsym \<and> snap_blockNumber x = snap_blockNumber d \<and> granularity x = ''hourly'')
          = (\<lambda>x. singleKey x = singleKey d)"
    unfolding k by (auto simp: singleKey_def)
  then show ?thesis by (simp add: computeApyForAsset_def assms(2))
qed

text \<open>
  C9, as the code has it. The backfill keeps one observation per day, the last of the day in
  the ascending history, and every day of the history is kept. For a kept observation it
  derives what \<open>computeApyForAsset\<close> derives when that observation is the newest one and
  the observations at least 7 days older are the same; it writes a snapshot only when the
  staking yield is positive, and then the snapshot has the values of the single derivation,
  but for \<open>chain\<close>, which is the observation's. The single derivation writes its snapshot
  under the key (asset, blockNumber, granularity), the backfill under (asset, timestamp,
  granularity). Every snapshot of the backfill is in the repository afterwards, which holds
  nothing but these and the documents it held before; into a repository without their keys
  they are appended in order. A repository without duplicate keys has none after the
  backfill, and the count returned is the number of snapshots written.
\<close>

theorem backfill_matches_single:
  "(findLatestByBlock tsym repo' = Some cur
     \<and> filter (\<lambda>r. tokenSymbol r = tsym \<and> timestamp r \<le> timestamp cur - 604800000) repo'
         = filter (\<lambda>r. tokenSymbol r = tsym \<and> timestamp r \<le> timestamp cur - 604800000) repo
    \<longrightarrow> (\<exists>d. computeDoc tsym price now repo' = Some d
           \<and> backfillDoc tsym price now (findAllAscending tsym repo) cur =
               (if 0 < jsOr (windowApy (exchangeRateHuman cur) (timestamp cur)
                               (findAtOrBefore tsym (timestamp cur - 604800000) repo'))
                            (windowApy (exchangeRateHuman cur) (timestamp cur)
                               (findAtOrBefore tsym (timestamp cur - 2592000000) repo')) * 100
                then Some (d\<lparr>snap_chain := chain cur\<rparr>) else None)
           \<and> computeApyForAsset tsym price now repo' store
               = upsert (\<lambda>x. singleKey x = singleKey d) d store
           \<and> singleKey d = (tsym, blockNumber cur, ''hourly'')
           \<and> batchKey d = (tsym, timestamp cur, ''hourly'')))
   \<and> backfillDocs toDay tsym price now repo =
       List.map_filter (backfillDoc tsym price now (findAllAscending tsym repo))
         (dailyRates toDay (findAllAscending tsym repo))
   \<and> distinct (map (\<lambda>r. toDay (timestamp r)) (dailyRates toDay rs))
   \<and> (\<forall>r\<in>set (dailyRates toDay rs).
         r \<in> set rs \<and> r = last (filter (\<lambda>x. toDay (timestamp x) = toDay (timestamp r)) rs))
   \<and> (\<forall>x\<in>set rs. \<exists>r\<in>set (dailyRates toDay rs). toDay (timestamp r) = toDay (timestamp x))
   \<and> fst (backfillApyHistory toDay tsym price now repo apyRepo) =
       foldl (\<lambda>store doc. upsert (\<lambda>x. batchKey x = batchKey doc) doc store) apyRepo
         (backfillDocs toDay tsym price now repo)
   \<and> set (backfillDocs toDay tsym price now repo)
       \<subseteq> set (fst (backfillApyHistory toDay tsym price now repo apyRepo))
   \<and> set (fst (backfillApyHistory toDay tsym price now repo apyRepo))
       \<subseteq> set apyRepo \<union> set (backfillDocs toDay tsym price now repo)
   \<and> ((\<forall>x\<in>set apyRepo. \<forall>d\<in>set (backfillDocs toDay tsym price now repo). batchKey x \<noteq> batchKey d)
        \<longrightarrow> fst (backfillApyHistory toDay tsym price now repo apyRepo) =
              apyRepo @ backfillDocs toDay tsym price now repo)
   \<and> (distinct (map batchKey apyRepo)
        \<longrightarrow> distinct (map batchKey (fst (backfillApyHistory toDay tsym price now repo apyRepo))))
   \<and> snd (backfillApyHistory toDay tsym price now repo apyRepo)
       = length (backfillDocs toDay tsym price now repo)"
proof (intro conjI impI ballI)
  assume a: "findLatestByBlock tsym repo' = Some cur
     \<and> filter (\<lambda>r. tokenSymbol r = tsym \<and> timestamp r \<le> timestamp cur - 604800000) repo'
         = filter (\<lambda>r. tokenSymbol r = tsym \<and> timestamp r \<le> timestamp cur - 604800000) repo"
  from backfillDoc_single[OF conjunct1[OF a] conjunct2[OF a], of price now]
  obtain d where d: "computeDoc tsym price now repo' = Some d"
    and b: "backfillDoc tsym price now (findAllAscending tsym repo) cur =
               (if 0 < jsOr (windowApy (exchangeRateHuman cur) (timestamp cur)
                               (findAtOrBefore tsym (timestamp cur - 604800000) repo'))
                            (windowApy (exchangeRateHuman cur) (timestamp cur)
                               (findAtOrBefore tsym (timestamp cur - 2592000000) repo')) * 100
                then Some (d\<lparr>snap_chain := chain cur\<rparr>) else None)"
    by (elim exE conjE)
  note k = computeDoc_fields[OF conjunct1[OF a] d]
  note c = computeApyForAsset_key[OF conjunct1[OF a] d, of store]
  show "\<exists>d. computeDoc tsym price now repo' = Some d
           \<and> backfillDoc tsym price now (findAllAscending tsym repo) cur =
               (if 0 < jsOr (windowApy (exchangeRateHuman cur) (timestamp cur)
                               (findAtOrBefore tsym (timestamp cur - 604800000) repo'))
                            (windowApy (exchangeRateHuman cur) (timestamp cur)
                               (findAtOrBefore tsym (timestamp cur - 2592000000) repo')) * 100
                then Some (d\<lparr>snap_chain := chain cur\<rparr>) else None)
           \<and> computeApyForAsset tsym price now repo' store
               = upsert (\<lambda>x. singleKey x = singleKey d) d store
           \<and> singleKey d = (tsym, blockNumber cur, ''hourly'')
           \<and> batchKey d = (tsym, timestamp cur, ''hourly'')"
    by (rule exI[of _ d]) (intro conjI d b c conjunct1[OF k] conjunct2[OF k])
next
  show "backfillDocs toDay tsym price now repo =
       List.map_filter (backfillDoc tsym price now (findAllAscending tsym repo))
         (dailyRates toDay (findAllAscending tsym repo))"
    by (simp add: backfillDocs_def Let_def)
next
  show "distinct (map (\<lambda>r. toDay (timestamp r)) (dailyRates toDay rs))"
    by (rule dailyRates_distinct)
next
  fix r assume r: "r \<in> set (dailyRates toDay rs)"
  show "r \<in> set rs" by (rule conjunct1[OF dailyRates_latest[OF r]])
  show "r = last (filter (\<lambda>x. toDay (timestamp x) = toDay (timestamp r)) rs)"
    by (rule conjunct2[OF dailyRates_latest[OF r]])
next
  fix x assume "x \<in> set rs"
  then show "\<exists>r\<in>set (dailyRates toDay rs). toDay (timestamp r) = toDay (timestamp x)"
    by (rule dailyRates_covers)
next
  show "fst (backfillApyHistory toDay tsym price now repo apyRepo) =
       foldl (\<lambda>store doc. upsert (\<lambda>x. batchKey x = batchKey doc) doc store) apyRepo
         (backfillDocs toDay tsym price now repo)"
    by (rule backfill_store)
next
  show "set (backfillDocs toDay tsym price now repo)
       \<subseteq> set (fst (backfillApyHistory toDay tsym price now repo apyRepo))"
    by (rule backfill_store_contains)
next
  show "set (fst (backfillApyHistory toDay tsym price now repo apyRepo))
       \<subseteq> set apyRepo \<union> set (backfillDocs toDay tsym price now repo)"
    by (rule backfill_store_sub)
next
  assume "\<forall>x\<in>set apyRepo. \<forall>d\<in>set (backfillDocs toDay tsym price now repo). batchKey x \<noteq> batchKey d"
  then show "fst (backfillApyHistory toDay tsym price now repo apyRepo) =
              apyRepo @ backfillDocs toDay tsym price now repo"
    by (rule backfill_store_fresh)
next
  assume "distinct (map batchKey apyRepo)"
  then show "distinct (map batchKey (fst (backfillApyHistory toDay tsym price now repo apyRepo)))"
    by (rule backfill_distinct)
next
  show "snd (backfillApyHistory toDay tsym price now repo apyRepo)
       = length (backfillDocs toDay tsym price now repo)"
    by (simp add: backfillApyHistory_def Let_def)
qed

text \<open>
  A history of one observation: its day is kept, the backfill writes nothing for it, and
  the single derivation writes a snapshot of zeros.
\<close>

theorem backfill_counterexample:
  "dailyRates (\<lambda>t. ''1970-01-01'')
     (findAllAscending ''vDOT''
        [\<lparr>tokenSymbol = ''vDOT'', blockNumber = 1, timestamp = 0, exchangeRateHuman = 1, chain = ''bifrost-polkadot''\<rparr>])
     = [\<lparr>tokenSymbol = ''vDOT'', blockNumber = 1, timestamp = 0, exchangeRateHuman = 1, chain = ''bifrost-polkadot''\<rparr>]
   \<and> backfillApyHistory (\<lambda>t. ''1970-01-01'') ''vDOT'' 5 0
        [\<lparr>tokenSymbol = ''vDOT'', blockNumber = 1, timestamp = 0, exchangeRateHuman = 1, chain = ''bifrost-polkadot''\<rparr>] []
      = ([], 0)
   \<and> computeApyForAsset ''vDOT'' 5 0
        [\<lparr>tokenSymbol = ''vDOT'', blockNumber = 1, timestamp = 0, exchangeRateHuman = 1, chain = ''bifrost-polkadot''\<rparr>] []
      = [\<lparr>asset = ''vDOT'', snap_timestamp = 0, snap_blockNumber = 1, stakingApyPercent = 0,
          farmingAprPercent = 0, totalApyPercent = 0, apy7d = 0, apy30d = 0,
          snap_exchangeRateHuman = 1, baseTokenPriceUsd = 5, snap_chain = ''bifrost-polkadot'',
          granularity = ''hourly'', createdAt = 0\<rparr>]"
  by (simp add: dailyRates_def findAllAscending_def backfillApyHistory_def backfillDocs_def
        backfillDoc_def lastOpt_def windowApy_def jsOr_def Let_def computeApyForAsset_def
        computeDoc_def apyWindows_def findLatestByBlock_def findAtOrBefore_def toFixed4_def
        BIFROST_CHAIN_def)

lemma example_latest:
  "findLatestByBlock ''vDOT''
     [\<lparr>tokenSymbol = ''vDOT'', blockNumber = 1, timestamp = 0, exchangeRateHuman = 1, chain = ''bifrost-polkadot''\<rparr>,
      \<lparr>tokenSymbol = ''vDOT'', blockNumber = 2, timestamp = 691200000, exchangeRateHuman = 101 / 100, chain = ''bifrost-polkadot''\<rparr>]
   = Some \<lparr>tokenSymbol = ''vDOT'', blockNumber = 2, timestamp = 691200000, exchangeRateHuman = 101 / 100, chain = ''bifrost-polkadot''\<rparr>"
  by (simp add: findLatestByBlock_def lastOpt_def)

lemma example_positive:
  "0 < jsOr (windowApy (101 / 100) 691200000
              (findAtOrBefore ''vDOT'' (691200000 - 604800000)
                 [\<lparr>tokenSymbol = ''vDOT'', blockNumber = 1, timestamp = 0, exchangeRateHuman = 1, chain = ''bifrost-polkadot''\<rparr>,
                  \<lparr>tokenSymbol = ''vDOT'', blockNumber = 2, timestamp = 691200000, exchangeRateHuman = 101 / 100, chain = ''bifrost-polkadot''\<rparr>]))
            (windowApy (101 / 100) 691200000
              (findAtOrBefore ''vDOT'' (691200000 - 2592000000)
                 [\<lparr>tokenSymbol = ''vDOT'', blockNumber = 1, timestamp = 0, exchangeRateHuman = 1, chain = ''bifrost-polkadot''\<rparr>,
                  \<lparr>tokenSymbol = ''vDOT'', blockNumber = 2, timestamp = 691200000, exchangeRateHuman = 101 / 100, chain = ''bifrost-polkadot''\<rparr>])) * 100"
proof -
  have f7: "findAtOrBefore ''vDOT'' (691200000 - 604800000)
                 [\<lparr>tokenSymbol = ''vDOT'', blockNumber = 1, timestamp = 0, exchangeRateHuman = 1, chain = ''bifrost-polkadot''\<rparr>,
                  \<lparr>tokenSymbol = ''vDOT'', blockNumber = 2, timestamp = 691200000, exchangeRateHuman = 101 / 100, chain = ''bifrost-polkadot''\<rparr>]
            = Some \<lparr>tokenSymbol = ''vDOT'', blockNumber = 1, timestamp = 0, exchangeRateHuman = 1, chain = ''bifrost-polkadot''\<rparr>"
    by (simp add: findAtOrBefore_def lastOpt_def)
  have "0 < windowApy (101 / 100) 691200000
              (Some \<lparr>tokenSymbol = ''vDOT'', blockNumber = 1, timestamp = 0, exchangeRateHuman = 1, chain = ''bifrost-polkadot''\<rparr>)"
    by (rule windowApy_pos[OF refl]) simp_all
  then show ?thesis unfolding f7 by (simp add: jsOr_def)
qed

lemma example_days:
  "dailyRates (\<lambda>t. if t < 86400000 then ''1970-01-01'' else ''1970-01-09'')
     (findAllAscending ''vDOT''
        [\<lparr>tokenSymbol = ''vDOT'', blockNumber = 1, timestamp = 0, exchangeRateHuman = 1, chain = ''bifrost-polkadot''\<rparr>,
      \<lparr>tokenSymbol = ''vDOT'', blockNumber = 2, timestamp = 691200000, exchangeRateHuman = 101 / 100, chain = ''bifrost-polkadot''\<rparr>])
   = [\<lparr>tokenSymbol = ''vDOT'', blockNumber = 1, timestamp = 0, exchangeRateHuman = 1, chain = ''bifrost-polkadot''\<rparr>,
      \<lparr>tokenSymbol = ''vDOT'', blockNumber = 2, timestamp = 691200000, exchangeRateHuman = 101 / 100, chain = ''bifrost-polkadot''\<rparr>]"
  by (simp add: dailyRates_def findAllAscending_def)

lemma example_first_day:
  "backfillDoc ''vDOT'' 5 0
     (findAllAscending ''vDOT''
        [\<lparr>tokenSymbol = ''vDOT'', blockNumber = 1, timestamp = 0, exchangeRateHuman = 1, chain = ''bifrost-polkadot''\<rparr>,
      \<lparr>tokenSymbol = ''vDOT'', blockNumber = 2, timestamp = 691200000, exchangeRateHuman = 101 / 100, chain = ''bifrost-polkadot''\<rparr>])
     \<lparr>tokenSymbol = ''vDOT'', blockNumber = 1, timestamp = 0, exchangeRateHuman = 1, chain = ''bifrost-polkadot''\<rparr> = None"
  by (simp add: backfillDoc_def findAllAscending_def lastOpt_def windowApy_def jsOr_def Let_def)

theorem backfill_matches_single_witness:
  "findLatestByBlock ''vDOT''
     [\<lparr>tokenSymbol = ''vDOT'', blockNumber = 1, timestamp = 0, exchangeRateHuman = 1, chain = ''bifrost-polkadot''\<rparr>,
      \<lparr>tokenSymbol = ''vDOT'', blockNumber = 2, timestamp = 691200000, exchangeRateHuman = 101 / 100, chain = ''bifrost-polkadot''\<rparr>]
   = Some \<lparr>tokenSymbol = ''vDOT'', blockNumber = 2, timestamp = 691200000, exchangeRateHuman = 101 / 100, chain = ''bifrost-polkadot''\<rparr>
   \<and> (\<exists>d. computeDoc ''vDOT'' 5 0
             [\<lparr>tokenSymbol = ''vDOT'', blockNumber = 1, timestamp = 0, exchangeRateHuman = 1, chain = ''bifrost-polkadot''\<rparr>,
      \<lparr>tokenSymbol = ''vDOT'', blockNumber = 2, timestamp = 691200000, exchangeRateHuman = 101 / 100, chain = ''bifrost-polkadot''\<rparr>] = Some d
          \<and> backfillDoc ''vDOT'' 5 0
               (findAllAscending ''vDOT''
                  [\<lparr>tokenSymbol = ''vDOT'', blockNumber = 1, timestamp = 0, exchangeRateHuman = 1, chain = ''bifrost-polkadot''\<rparr>,
      \<lparr>tokenSymbol = ''vDOT'', blockNumber = 2, timestamp = 691200000, exchangeRateHuman = 101 / 100, chain = ''bifrost-polkadot''\<rparr>])
               \<lparr>tokenSymbol = ''vDOT'', blockNumber = 2, timestamp = 691200000, exchangeRateHuman = 101 / 100, chain = ''bifrost-polkadot''\<rparr>
             = Some (d\<lparr>snap_chain := ''bifrost-polkadot''\<rparr>)
          \<and> computeApyForAsset ''vDOT'' 5 0
               [\<lparr>tokenSymbol = ''vDOT'', blockNumber = 1, timestamp = 0, exchangeRateHuman = 1, chain = ''bifrost-polkadot''\<rparr>,
      \<lparr>tokenSymbol = ''vDOT'', blockNumber = 2, timestamp = 691200000, exchangeRateHuman = 101 / 100, chain = ''bifrost-polkadot''\<rparr>] [] = [d]
          \<and> singleKey d = (''vDOT'', 2, ''hourly'')
          \<and> batchKey d = (''vDOT'', 691200000, ''hourly'')
          \<and> backfillApyHistory (\<lambda>t. if t < 86400000 then ''1970-01-01'' else ''1970-01-09'') ''vDOT'' 5 0
               [\<lparr>tokenSymbol = ''vDOT'', blockNumber = 1, timestamp = 0, exchangeRateHuman = 1, chain = ''bifrost-polkadot''\<rparr>,
      \<lparr>tokenSymbol = ''vDOT'', blockNumber = 2, timestamp = 691200000, exchangeRateHuman = 101 / 100, chain = ''bifrost-polkadot''\<rparr>] []
             = ([d\<lparr>snap_chain := ''bifrost-polkadot''\<rparr>], 1))
   \<and> distinct (map batchKey [])
   \<and> distinct (map batchKey (fst (backfillApyHistory (\<lambda>t. if t < 86400000 then ''1970-01-01'' else ''1970-01-09'') ''vDOT'' 5 0
             [\<lparr>tokenSymbol = ''vDOT'', blockNumber = 1, timestamp = 0, exchangeRateHuman = 1, chain = ''bifrost-polkadot''\<rparr>,
      \<lparr>tokenSymbol = ''vDOT'', blockNumber = 2, timestamp = 691200000, exchangeRateHuman = 101 / 100, chain = ''bifrost-polkadot''\<rparr>] [])))"
proof -
  note t = backfill_matches_single[where tsym = "''vDOT''"
             and repo' = "[\<lparr>tokenSymbol = ''vDOT'', blockNumber = 1, timestamp = 0, exchangeRateHuman = 1, chain = ''bifrost-polkadot''\<rparr>,
      \<lparr>tokenSymbol = ''vDOT'', blockNumber = 2, timestamp = 691200000, exchangeRateHuman = 101 / 100, chain = ''bifrost-polkadot''\<rparr>]"
             and cur = "\<lparr>tokenSymbol = ''vDOT'', blockNumber = 2, timestamp = 691200000, exchangeRateHuman = 101 / 100, chain = ''bifrost-polkadot''\<rparr>"
             and repo = "[\<lparr>tokenSymbol = ''vDOT'', blockNumber = 1, timestamp = 0, exchangeRateHuman = 1, chain = ''bifrost-polkadot''\<rparr>,
      \<lparr>tokenSymbol = ''vDOT'', blockNumber = 2, timestamp = 691200000, exchangeRateHuman = 101 / 100, chain = ''bifrost-polkadot''\<rparr>]"
             and price = 5 and now = 0 and store = "[]"
             and toDay = "(\<lambda>t. if t < 86400000 then ''1970-01-01'' else ''1970-01-09'')" and rs = "[]" and apyRepo = "[]"]
  have h: "findLatestByBlock ''vDOT''
     [\<lparr>tokenSymbol = ''vDOT'', blockNumber = 1, timestamp = 0, exchangeRateHuman = 1, chain = ''bifrost-polkadot''\<rparr>,
      \<lparr>tokenSymbol = ''vDOT'', blockNumber = 2, timestamp = 691200000, exchangeRateHuman = 101 / 100, chain = ''bifrost-polkadot''\<rparr>]
   = Some \<lparr>tokenSymbol = ''vDOT'', blockNumber = 2, timestamp = 691200000, exchangeRateHuman = 101 / 100, chain = ''bifrost-polkadot''\<rparr>
     \<and> filter (\<lambda>r. tokenSymbol r = ''vDOT'' \<and> timestamp r \<le> timestamp \<lparr>tokenSymbol = ''vDOT'', blockNumber = 2, timestamp = 691200000, exchangeRateHuman = 101 / 100, chain = ''bifrost-polkadot''\<rparr> - 604800000)
          [\<lparr>tokenSymbol = ''vDOT'', blockNumber = 1, timestamp = 0, exchangeRateHuman = 1, chain = ''bifrost-polkadot''\<rparr>,
      \<lparr>tokenSymbol = ''vDOT'', blockNumber = 2, timestamp = 691200000, exchangeRateHuman = 101 / 100, chain = ''bifrost-polkadot''\<rparr>]
       = filter (\<lambda>r. tokenSymbol r = ''vDOT'' \<and> timestamp r \<le> timestamp \<lparr>tokenSymbol = ''vDOT'', blockNumber = 2, timestamp = 691200000, exchangeRateHuman = 101 / 100, chain = ''bifrost-polkadot''\<rparr> - 604800000)
          [\<lparr>tokenSymbol = ''vDOT'', blockNumber = 1, timestamp = 0, exchangeRateHuman = 1, chain = ''bifrost-polkadot''\<rparr>,
      \<lparr>tokenSymbol = ''vDOT'', blockNumber = 2, timestamp = 691200000, exchangeRateHuman = 101 / 100, chain = ''bifrost-polkadot''\<rparr>]"
    using example_latest by simp
  from mp[OF conjunct1[OF t] h] example_positive
  obtain d where d: "computeDoc ''vDOT'' 5 0
             [\<lparr>tokenSymbol = ''vDOT'', blockNumber = 1, timestamp = 0, exchangeRateHuman = 1, chain = ''bifrost-polkadot''\<rparr>,
      \<lparr>tokenSymbol = ''vDOT'', blockNumber = 2, timestamp = 691200000, exchangeRateHuman = 101 / 100, chain = ''bifrost-polkadot''\<rparr>] = Some d"
    and b: "backfillDoc ''vDOT'' 5 0
               (findAllAscending ''vDOT''
                  [\<lparr>tokenSymbol = ''vDOT'', blockNumber = 1, timestamp = 0, exchangeRateHuman = 1, chain = ''bifrost-polkadot''\<rparr>,
      \<lparr>tokenSymbol = ''vDOT'', blockNumber = 2, timestamp = 691200000, exchangeRateHuman = 101 / 100, chain = ''bifrost-polkadot''\<rparr>])
               \<lparr>tokenSymbol = ''vDOT'', blockNumber = 2, timestamp = 691200000, exchangeRateHuman = 101 / 100, chain = ''bifrost-polkadot''\<rparr>
             = Some (d\<lparr>snap_chain := ''bifrost-polkadot''\<rparr>)"
    and c: "computeApyForAsset ''vDOT'' 5 0
               [\<lparr>tokenSymbol = ''vDOT'', blockNumber = 1, timestamp = 0, exchangeRateHuman = 1, chain = ''bifrost-polkadot''\<rparr>,
      \<lparr>tokenSymbol = ''vDOT'', blockNumber = 2, timestamp = 691200000, exchangeRateHuman = 101 / 100, chain = ''bifrost-polkadot''\<rparr>] [] = [d]"
    and k1: "singleKey d = (''vDOT'', 2, ''hourly'')"
    and k2: "batchKey d = (''vDOT'', 691200000, ''hourly'')"
    by auto
  have docs: "backfillDocs (\<lambda>t. if t < 86400000 then ''1970-01-01'' else ''1970-01-09'') ''vDOT'' 5 0
               [\<lparr>tokenSymbol = ''vDOT'', blockNumber = 1, timestamp = 0, exchangeRateHuman = 1, chain = ''bifrost-polkadot''\<rparr>,
      \<lparr>tokenSymbol = ''vDOT'', blockNumber = 2, timestamp = 691200000, exchangeRateHuman = 101 / 100, chain = ''bifrost-polkadot''\<rparr>] = [d\<lparr>snap_chain := ''bifrost-polkadot''\<rparr>]"
    unfolding conjunct1[OF conjunct2[OF t]] example_days
    using example_first_day b by (simp add: List.map_filter_simps)
  have s: "fst (backfillApyHistory (\<lambda>t. if t < 86400000 then ''1970-01-01'' else ''1970-01-09'') ''vDOT'' 5 0
               [\<lparr>tokenSymbol = ''vDOT'', blockNumber = 1, timestamp = 0, exchangeRateHuman = 1, chain = ''bifrost-polkadot''\<rparr>,
      \<lparr>tokenSymbol = ''vDOT'', blockNumber = 2, timestamp = 691200000, exchangeRateHuman = 101 / 100, chain = ''bifrost-polkadot''\<rparr>] []) = [d\<lparr>snap_chain := ''bifrost-polkadot''\<rparr>]"
    using t docs by simp
  have n: "snd (backfillApyHistory (\<lambda>t. if t < 86400000 then ''1970-01-01'' else ''1970-01-09'') ''vDOT'' 5 0
               [\<lparr>tokenSymbol = ''vDOT'', blockNumber = 1, timestamp = 0, exchangeRateHuman = 1, chain = ''bifrost-polkadot''\<rparr>,
      \<lparr>tokenSymbol = ''vDOT'', blockNumber = 2, timestamp = 691200000, exchangeRateHuman = 101 / 100, chain = ''bifrost-polkadot''\<rparr>] []) = 1"
    using t docs by simp
  have w: "backfillApyHistory (\<lambda>t. if t < 86400000 then ''1970-01-01'' else ''1970-01-09'') ''vDOT'' 5 0
               [\<lparr>tokenSymbol = ''vDOT'', blockNumber = 1, timestamp = 0, exchangeRateHuman = 1, chain = ''bifrost-polkadot''\<rparr>,
      \<lparr>tokenSymbol = ''vDOT'', blockNumber = 2, timestamp = 691200000, exchangeRateHuman = 101 / 100, chain = ''bifrost-polkadot''\<rparr>] []
             = ([d\<lparr>snap_chain := ''bifrost-polkadot''\<rparr>], 1)"
    using s n by (simp add: prod_eq_iff)
  have e: "distinct (map batchKey ([] :: ApySnapshot list))" by simp
  have k: "distinct (map batchKey (fst (backfillApyHistory (\<lambda>t. if t < 86400000 then ''1970-01-01'' else ''1970-01-09'') ''vDOT'' 5 0
             [\<lparr>tokenSymbol = ''vDOT'', blockNumber = 1, timestamp = 0, exchangeRateHuman = 1, chain = ''bifrost-polkadot''\<rparr>,
      \<lparr>tokenSymbol = ''vDOT'', blockNumber = 2, timestamp = 691200000, exchangeRateHuman = 101 / 100, chain = ''bifrost-polkadot''\<rparr>] [])))"
    unfolding s by simp
  show ?thesis
    using example_latest d b c k1 k2 w e k by blast
qed

end
